theory Spec2Isabelle
  imports Main
begin

section \<open>The transfer protocol of exfer.c\<close>

text \<open>
  This theory embeds the routines of \<^verbatim>\<open>src/exfer.c\<close>: the receive routine
  \<^verbatim>\<open>xfer_accept_atom_node\<close>, the send routine \<^verbatim>\<open>send_node\<close>, the request and
  announcement sweeps \<^verbatim>\<open>request_partials\<close>, \<^verbatim>\<open>send_root\<close>, \<^verbatim>\<open>send_all\<close>, the login
  check \<^verbatim>\<open>check_login\<close>, the server handler \<^verbatim>\<open>page_xfer\<close> and the bookkeeping of a
  client cycle in \<^verbatim>\<open>client_sync\<close>.

  The file calls many routines that it does not define (the blob library, the
  database engine, the content store, the login module). Each of them is a field of
  one of the parameter records below, so every theorem holds for whatever those
  routines compute. A blob is its byte string; the database is a value of an
  arbitrary type \<open>'db\<close> that the store routines transform.
\<close>

subsection \<open>Bytes, text and numbers\<close>

type_synonym blob = string

text \<open>The \<^verbatim>\<open>%d\<close> conversion of \<^verbatim>\<open>blob_appendf\<close>: a decimal numeral.\<close>

fun dec_nat :: "nat \<Rightarrow> string" where
  "dec_nat n =
     (if n < 10 then [''0123456789'' ! n]
      else dec_nat (n div 10) @ [''0123456789'' ! (n mod 10)])"

definition dec :: "int \<Rightarrow> string" where
  "dec i = (if i < 0 then ''-'' @ dec_nat (nat (- i)) else dec_nat (nat i))"

text \<open>
  The lines that start with \<^verbatim>\<open>@\<close> in the source are reply text; in them a space
  inside a token is written as backslash-s. \<open>at_text\<close> produces those bytes from
  the readable text.
\<close>

definition at_text :: "string \<Rightarrow> string" where
  "at_text s = concat (map (\<lambda>c. if c = CHR '' '' then [CHR 0x5C, CHR ''s''] else [c]) s)"

subsection \<open>The session structure and the globals\<close>

text \<open>
  \<^verbatim>\<open>struct Xfer\<close> with the fields the routines of the file read and write.
  \<open>pIn\<close> is the input from the cursor on; \<open>aToken\<close> holds the \<open>nToken\<close>
  tokens of the current line.
\<close>

record Xfer =
  pIn :: blob
  pOut :: blob
  line :: blob
  aToken :: "blob list"
  err :: blob
  nToken :: int
  nIGotSent :: int
  nPrivIGot :: int
  nFileSent :: int
  nDeltaSent :: int
  nINeedSent :: int
  nFileRcvd :: int
  nDeltaRcvd :: int
  nDanglingFile :: int
  nGimmeSent :: int
  mxSend :: int
  resync :: int
  syncPrivate :: int
  remoteVersion :: int
  remoteDate :: int
  maxTime :: int

text \<open>The session after \<^verbatim>\<open>memset(&xfer, 0, sizeof(xfer))\<close>.\<close>

definition xfer_zero :: Xfer where
  "xfer_zero = \<lparr>pIn = [], pOut = [], line = [], aToken = [], err = [], nToken = 0,
     nIGotSent = 0, nPrivIGot = 0, nFileSent = 0, nDeltaSent = 0, nINeedSent = 0,
     nFileRcvd = 0, nDeltaRcvd = 0, nDanglingFile = 0, nGimmeSent = 0, mxSend = 0,
     resync = 0, syncPrivate = 0, remoteVersion = 0, remoteDate = 0, maxTime = 0\<rparr>"

text \<open>A token of the line; the blobs past the last token are empty.\<close>

definition token :: "Xfer \<Rightarrow> nat \<Rightarrow> blob" where
  "token x i = (if i < length (aToken x) then aToken x ! i else [])"

text \<open>The part of the global \<^verbatim>\<open>g\<close> that the file uses.\<close>

record globals =
  perm_Read :: bool
  perm_Write :: bool
  perm_Clone :: bool
  perm_Private :: bool
  perm_Admin :: bool
  userUid :: int
  zLogin :: string
  zNonce :: string
  zErrMsg :: string

subsection \<open>The routines defined elsewhere\<close>

text \<open>The blob, hash and text helpers, and the clock (\<open>time_now k\<close> is the \<open>k\<close>th reading).\<close>

record lib_ops =
  blob_is_hname :: "blob \<Rightarrow> bool"
  blob_is_int :: "blob \<Rightarrow> int option"
  blob_tokenize :: "blob \<Rightarrow> blob list"
  hname_verify_hash :: "blob \<Rightarrow> blob \<Rightarrow> int"
  HNAME_ERROR :: int
  HNAME_LEN_SHA1 :: int
  blob_delta_apply :: "blob \<Rightarrow> blob \<Rightarrow> blob"
  defossilize :: "string \<Rightarrow> string"
  fossilize :: "string \<Rightarrow> string"
  httpize :: "string \<Rightarrow> string"
  sha1sum_blob :: "blob \<Rightarrow> blob"
  sha1_shared_secret :: "string \<Rightarrow> string \<Rightarrow> string"
  blob_constant_time_cmp :: "blob \<Rightarrow> blob \<Rightarrow> int"
  time_now :: "nat \<Rightarrow> int"

text \<open>
  The database engine. A table is read as the list of its rows; the
  \<^verbatim>\<open>WHERE\<close> and \<^verbatim>\<open>ORDER BY\<close> clauses of the file's statements are written out in
  the routines below. \<open>node_rows\<close> are the rows \<^verbatim>\<open>(uuid, nid)\<close> of the table
  \<^verbatim>\<open>node\<close>, \<open>root_rows\<close> the ids of the table \<^verbatim>\<open>root\<close>, \<open>partial_rows\<close> the rows
  \<^verbatim>\<open>(uuid, size)\<close> of the table \<^verbatim>\<open>partial\<close>, \<open>user_rows\<close> the rows
  \<^verbatim>\<open>(login, pw, cap, uid)\<close> of the table \<^verbatim>\<open>user\<close>, and \<open>private_uuids\<close> the result
  of \<^verbatim>\<open>SELECT uuid FROM private JOIN blob USING(rid)\<close>. \<open>peerhave_exists\<close> is the
  test \<^verbatim>\<open>db_table_exists\<close> for the temporary table \<^verbatim>\<open>peerhave\<close>;
  \<open>peerhave_has_uuid\<close> and \<open>peerneed_has_uuid\<close> are the \<^verbatim>\<open>EXISTS\<close> subqueries on the
  column \<^verbatim>\<open>uuid\<close> of the tables \<^verbatim>\<open>peerhave\<close> and \<^verbatim>\<open>peerneed\<close>. \<open>blob_uuid\<close> is the
  statement of \<^verbatim>\<open>send_node\<close> that reads the name of a record (empty when there is
  no row), and \<open>max_blob_rid\<close> is \<^verbatim>\<open>SELECT max(rid) FROM blob\<close>.

  \<open>peerhave_has_rid\<close> is the statement \<^verbatim>\<open>SELECT 1 FROM peerhave WHERE rid=%d\<close> of
  \<^verbatim>\<open>send_node\<close>. It names a column \<^verbatim>\<open>rid\<close>, and the table \<^verbatim>\<open>peerhave\<close> that
  \<^verbatim>\<open>page_xfer\<close> and \<^verbatim>\<open>client_sync\<close> create is
  \<^verbatim>\<open>peerhave(uuid TEXT PRIMARY KEY) WITHOUT ROWID\<close>, with the single column
  \<^verbatim>\<open>uuid\<close>; so the result is an option: \<open>None\<close> when the statement cannot be
  prepared (no such column, or no such table), and the answer of the query
  otherwise.
\<close>

record 'db sql_ops =
  node_rows :: "'db \<Rightarrow> (string \<times> int) list"
  root_rows :: "'db \<Rightarrow> int list"
  partial_rows :: "'db \<Rightarrow> (string \<times> int) list"
  user_rows :: "'db \<Rightarrow> (string \<times> string \<times> string \<times> int) list"
  private_uuids :: "'db \<Rightarrow> string list"
  peerhave_exists :: "'db \<Rightarrow> bool"
  peerhave_has_uuid :: "'db \<Rightarrow> string \<Rightarrow> bool"
  peerhave_has_rid :: "'db \<Rightarrow> int \<Rightarrow> bool option"
  peerneed_has_uuid :: "'db \<Rightarrow> string \<Rightarrow> bool"
  blob_uuid :: "'db \<Rightarrow> int \<Rightarrow> blob"
  max_blob_rid :: "'db \<Rightarrow> int"
  peerhave_insert :: "int \<Rightarrow> 'db \<Rightarrow> 'db"
  db_multi_exec :: "string \<Rightarrow> 'db \<Rightarrow> 'db"
  db_get :: "'db \<Rightarrow> string \<Rightarrow> string option"
  db_get_int :: "'db \<Rightarrow> string \<Rightarrow> int \<Rightarrow> int"
  db_get_boolean :: "'db \<Rightarrow> string \<Rightarrow> bool \<Rightarrow> bool"
  db_schema_is_outofdate :: "'db \<Rightarrow> bool"

text \<open>
  The content store and the transaction routines. \<open>content_get\<close> gives the return
  code of the C routine and the blob it fills.
\<close>

record 'db store_ops =
  content_new :: "string \<Rightarrow> bool \<Rightarrow> 'db \<Rightarrow> int \<times> 'db"
  content_put_ex :: "blob \<Rightarrow> string \<Rightarrow> int \<Rightarrow> bool \<Rightarrow> 'db \<Rightarrow> int \<times> 'db"
  content_get :: "'db \<Rightarrow> int \<Rightarrow> int \<times> blob"
  content_make_public :: "int \<Rightarrow> 'db \<Rightarrow> 'db"
  content_is_private :: "'db \<Rightarrow> int \<Rightarrow> bool"
  uuid_is_shunned :: "'db \<Rightarrow> string \<Rightarrow> bool"
  manifest_crosslink :: "int \<Rightarrow> blob \<Rightarrow> 'db \<Rightarrow> 'db"
  manifest_crosslink_begin :: "'db \<Rightarrow> 'db"
  manifest_crosslink_end :: "'db \<Rightarrow> 'db"
  remote_unk :: "blob \<Rightarrow> 'db \<Rightarrow> 'db"
  db_begin_write :: "'db \<Rightarrow> 'db"
  db_commit_transaction :: "'db \<Rightarrow> 'db"
  configure_rebuild :: "'db \<Rightarrow> 'db"

text \<open>
  The routines that are handed the session, and the login module. The send routines
  read the session and the database and write the reply buffer and the database;
  \<^verbatim>\<open>xfer_accept_list_node\<close> gives the number of payload bytes it extracts from the
  input, the text it appends to \<open>err\<close> and the database. \<open>remote_user\<close> and
  \<open>request_method\<close> are the CGI parameters, \<open>now_text\<close> the formatted server time.
  \<open>uninit_isPriv\<close>, \<open>uninit_seqno\<close> and \<open>uninit_rid\<close> stand for the locals
  \<^verbatim>\<open>isPriv\<close> of \<^verbatim>\<open>xfer_accept_atom_node\<close>, \<^verbatim>\<open>seqno\<close> of \<^verbatim>\<open>page_xfer\<close> and \<^verbatim>\<open>rid\<close> of
  \<^verbatim>\<open>create_list_node\<close>, which are read without having been assigned.
\<close>

record 'db ext_ops =
  send_file :: "int \<Rightarrow> blob option \<Rightarrow> bool \<Rightarrow> Xfer \<Rightarrow> 'db \<Rightarrow> blob \<times> 'db"
  send_compressed_file :: "int \<Rightarrow> Xfer \<Rightarrow> 'db \<Rightarrow> blob \<times> 'db"
  send_unversioned_catalog :: "Xfer \<Rightarrow> 'db \<Rightarrow> blob \<times> 'db"
  xfer_accept_list_node :: "Xfer \<Rightarrow> 'db \<Rightarrow> nat \<times> blob \<times> 'db"
  xfer_cannot_send_sha3_error :: "Xfer \<Rightarrow> Xfer"
  send_delta_native :: "Xfer \<Rightarrow> 'db \<Rightarrow> int \<Rightarrow> bool \<Rightarrow> blob \<Rightarrow> int \<times> Xfer"
  send_delta_parent :: "Xfer \<Rightarrow> 'db \<Rightarrow> int \<Rightarrow> bool \<Rightarrow> blob \<Rightarrow> blob \<Rightarrow> int \<times> Xfer"
  login_set_capabilities :: "string \<Rightarrow> globals \<Rightarrow> globals"
  login_check_credentials :: "'db \<Rightarrow> globals \<Rightarrow> globals"
  login_set_anon_nobody_capabilities :: "'db \<Rightarrow> globals \<Rightarrow> globals"
  remote_user :: "string option"
  request_method :: string
  now_text :: "'db \<Rightarrow> string"
  uninit_isPriv :: bool
  uninit_seqno :: int
  uninit_rid :: int

text \<open>All of them together.\<close>

record 'db env =
  lib :: lib_ops
  sql :: "'db sql_ops"
  sto :: "'db store_ops"
  ext :: "'db ext_ops"

subsection \<open>Reading the input\<close>

text \<open>
  Modelled from the spec: the blob routines \<^verbatim>\<open>blob_line\<close>, \<^verbatim>\<open>blob_extract\<close> and
  \<^verbatim>\<open>blob_tail\<close> are not in the sources. A card is one newline-terminated line; the
  payload of a card is the next N bytes, after which the next line begins. \<open>blob_line\<close>
  is \<open>None\<close> at the end of the input and otherwise gives the line without its newline
  and the input after it; \<open>blob_extract\<close> gives the next N bytes (all that are left
  when fewer, none when N is not positive) and the input after them; \<open>blob_tail\<close> is
  the input from the cursor on.
\<close>

definition blob_line :: "blob \<Rightarrow> (blob \<times> blob) option" where
  "blob_line s =
     (if s = [] then None
      else Some (takeWhile (\<lambda>c. c \<noteq> CHR 0x0A) s, drop 1 (dropWhile (\<lambda>c. c \<noteq> CHR 0x0A) s)))"

definition blob_extract :: "int \<Rightarrow> blob \<Rightarrow> blob \<times> blob" where
  "blob_extract n s = (take (nat n) s, drop (nat n) s)"

definition blob_tail :: "blob \<Rightarrow> blob" where
  "blob_tail s = s"

subsection \<open>Record ids and the peer-have table\<close>

text \<open>
  \<^verbatim>\<open>nid_from_uuid\<close>. Its second parameter is declared as \<^verbatim>\<open>partial\<close> and read as
  \<^verbatim>\<open>phantomize\<close>; the model names it as the body does.
\<close>

definition nid_from_uuid ::
  "'db sql_ops \<Rightarrow> 'db store_ops \<Rightarrow> blob \<Rightarrow> bool \<Rightarrow> bool \<Rightarrow> 'db \<Rightarrow> int \<times> 'db" where
  "nid_from_uuid Q S pUuid phantomize isPrivate d =
     (let rid = (case filter (\<lambda>r. fst r = pUuid) (node_rows Q d) of
                   [] \<Rightarrow> 0 | r # _ \<Rightarrow> snd r)
      in if rid = 0 \<and> phantomize then content_new S pUuid isPrivate d else (rid, d))"

definition peer_have :: "'db sql_ops \<Rightarrow> int \<Rightarrow> 'db \<Rightarrow> 'db" where
  "peer_have Q nid d = (if nid \<noteq> 0 then peerhave_insert Q nid d else d)"

subsection \<open>The announcement sweeps\<close>

text \<open>
  \<^verbatim>\<open>send_root\<close>. With a resync cursor the statement reads the records with
  \<^verbatim>\<open>nid<=resync\<close> in descending order of \<^verbatim>\<open>nid\<close>; otherwise it joins the roots
  with their records. \<open>zExtra\<close> leaves out what the peer has when the peer-have
  table exists.
\<close>

definition send_root_rows :: "'db sql_ops \<Rightarrow> 'db \<Rightarrow> Xfer \<Rightarrow> (string \<times> int) list" where
  "send_root_rows Q d x =
     (let zExtra = (\<lambda>uuid. if peerhave_exists Q d then \<not> peerhave_has_uuid Q d uuid else True)
      in if resync x \<noteq> 0
         then rev (sort_key snd
                (filter (\<lambda>r. snd r \<le> resync x \<and> zExtra (fst r)) (node_rows Q d)))
         else filter (\<lambda>r. zExtra (fst r))
                (concat (map (\<lambda>n. filter (\<lambda>r. snd r = n) (node_rows Q d)) (root_rows Q d))))"

text \<open>One turn of the loop: the card, the count, and the cursor when the cap is passed.\<close>

definition send_root_step :: "string \<times> int \<Rightarrow> Xfer \<times> int \<Rightarrow> Xfer \<times> int" where
  "send_root_step r s =
     (let x1 = (fst s)\<lparr>pOut := pOut (fst s) @ ''have '' @ fst r @ ''\<newline>''\<rparr>;
          cnt = snd s + 1
      in if resync x1 \<noteq> 0 \<and> mxSend x1 < int (length (pOut x1))
         then (x1\<lparr>resync := snd r - 1\<rparr>, cnt)
         else (x1, cnt))"

definition send_root_loop :: "(string \<times> int) list \<Rightarrow> Xfer \<Rightarrow> Xfer \<times> int" where
  "send_root_loop rows x = fold send_root_step rows (x, 0)"

definition send_root :: "'db sql_ops \<Rightarrow> 'db \<Rightarrow> Xfer \<Rightarrow> Xfer \<times> int" where
  "send_root Q d x =
     (let s = send_root_loop (send_root_rows Q d x) x
      in if snd s = 0 then ((fst s)\<lparr>resync := 0\<rparr>, snd s) else s)"

text \<open>The cursor after each prefix of the sweep, from before the first row to after the last.\<close>

definition resync_trace :: "(string \<times> int) list \<Rightarrow> Xfer \<Rightarrow> int list" where
  "resync_trace rows x =
     map (\<lambda>k. resync (fst (send_root_loop (take k rows) x))) [0 ..< Suc (length rows)]"

text \<open>\<^verbatim>\<open>send_all\<close>: a \<^verbatim>\<open>have\<close> card for every record.\<close>

definition send_all :: "'db sql_ops \<Rightarrow> 'db \<Rightarrow> Xfer \<Rightarrow> Xfer" where
  "send_all Q d x =
     fold (\<lambda>r y. y\<lparr>pOut := pOut y @ ''have '' @ fst r @ ''\<newline>''\<rparr>) (node_rows Q d) x"

text \<open>\<^verbatim>\<open>send_private\<close>: with private sync, an \<^verbatim>\<open>igot\<close> card for every private record.\<close>

definition send_private :: "'db sql_ops \<Rightarrow> 'db \<Rightarrow> Xfer \<Rightarrow> Xfer \<times> int" where
  "send_private Q d x =
     (if syncPrivate x \<noteq> 0
      then (fold (\<lambda>u y. y\<lparr>pOut := pOut y @ ''igot '' @ u @ '' 1\<newline>''\<rparr>) (private_uuids Q d) x,
            int (length (private_uuids Q d)))
      else (x, 0))"

text \<open>
  \<^verbatim>\<open>create_list_node\<close>. The text of the list node and its checksum are built and
  dropped (the call that would store them is commented out), so what remains is the
  statement that deletes roots. \<open>list_node_loop\<close> runs over the joined rows and
  collects the text for the \<^verbatim>\<open>NOT IN\<close> list; \<open>rid\<close> is the unassigned local.
\<close>

fun list_node_loop :: "nat \<Rightarrow> int \<Rightarrow> int \<Rightarrow> string \<Rightarrow> int \<Rightarrow> string" where
  "list_node_loop 0 nRow nUncl deleteWhere rid = deleteWhere"
| "list_node_loop (Suc k) nRow nUncl deleteWhere rid =
     (if nRow + 1 \<ge> 800 \<and> nUncl > nRow + 1 + 100
      then list_node_loop k 0 (nUncl - (nRow + 1)) (deleteWhere @ '','' @ dec rid) rid
      else list_node_loop k (nRow + 1) nUncl deleteWhere rid)"

definition create_list_node :: "'db sql_ops \<Rightarrow> int \<Rightarrow> 'db \<Rightarrow> 'db" where
  "create_list_node Q rid d =
     (let nUncl = int (length (root_rows Q d)) in
      if nUncl \<ge> 100
      then (let rows = concat (map (\<lambda>n. filter (\<lambda>r. snd r = n) (node_rows Q d)) (root_rows Q d))
            in db_multi_exec Q
                 (''DELETE FROM root WHERE nid NOT IN (0 ''
                    @ list_node_loop (length rows) 0 nUncl [] rid @ '')'') d)
      else d)"

subsection \<open>Requests for partial nodes\<close>

text \<open>
  \<^verbatim>\<open>request_partials\<close>: the rows of \<^verbatim>\<open>partial\<close> that are not in \<^verbatim>\<open>peerneed\<close>; the loop
  ends at the last row or when \<^verbatim>\<open>maxReq-- > 0\<close> fails.
\<close>

fun request_partials_loop :: "(string \<times> int) list \<Rightarrow> int \<Rightarrow> Xfer \<Rightarrow> Xfer" where
  "request_partials_loop [] maxReq x = x"
| "request_partials_loop (r # rows) maxReq x =
     (if maxReq > 0
      then request_partials_loop rows (maxReq - 1)
             (x\<lparr>pOut := pOut x @ ''ineed '' @ fst r @ '' '' @ dec (snd r) @ ''\<newline>'',
                nINeedSent := nINeedSent x + 1\<rparr>)
      else x)"

definition request_partials :: "'db sql_ops \<Rightarrow> 'db \<Rightarrow> int \<Rightarrow> Xfer \<Rightarrow> Xfer" where
  "request_partials Q d maxReq x =
     request_partials_loop
       (filter (\<lambda>r. \<not> peerneed_has_uuid Q d (fst r)) (partial_rows Q d)) maxReq x"

subsection \<open>The cycles of the client\<close>

text \<open>
  Of \<^verbatim>\<open>client_sync\<close> the model keeps the variables that live across cycles and
  decide the requests: \<open>go\<close>, \<open>mxPhantomReq\<close>, \<open>nCycle\<close> and \<open>cloneSeqno\<close>. What
  the exchange with the server and the processing of its reply leave behind in one
  cycle is an input: the database at the start of the cycle, whether
  \<^verbatim>\<open>http_exchange\<close> succeeded, and the counters that the test at the end of the
  cycle reads.
\<close>

record client_state =
  go :: int
  mxPhantomReq :: int
  nCycle :: int
  cloneSeqno :: int

record 'db cycle_in =
  c_db :: 'db
  http_ok :: bool
  o_nFileRcvd :: int
  o_nDeltaRcvd :: int
  o_nDanglingFile :: int
  o_newPhantom :: bool
  o_phantom_exists :: bool
  o_nFileSent :: int
  o_nDeltaSent :: int
  o_uvDoPush :: bool
  o_nPrivIGot :: int
  o_nUvGimmeSent :: int
  o_nUvFileRcvd :: int
  o_cloneSeqno :: int
  o_nArtifactRcvd :: int
  o_nPriorArtifact :: int

text \<open>The values at the declarations of \<^verbatim>\<open>client_sync\<close>.\<close>

definition client_init :: client_state where
  "client_init = \<lparr>go = 1, mxPhantomReq = 200, nCycle = 0, cloneSeqno = 1\<rparr>"

definition nFileRecv :: "'db cycle_in \<Rightarrow> int" where
  "nFileRecv i = o_nFileRcvd i + o_nDeltaRcvd i + o_nDanglingFile i"

text \<open>The end of a cycle: \<^verbatim>\<open>nCycle++\<close> and the test that sets \<open>go\<close> (which is 0 before it).\<close>

definition cycle_end :: "bool \<Rightarrow> 'db cycle_in \<Rightarrow> client_state \<Rightarrow> client_state" where
  "cycle_end sync_clone i c =
     (let c = c\<lparr>go := 0, nCycle := nCycle c + 1, cloneSeqno := o_cloneSeqno i\<rparr>
      in if (nFileRecv i > 0 \<or> o_newPhantom i) \<and> o_phantom_exists i
         then c\<lparr>go := 1,
                 mxPhantomReq := (if nFileRecv i * 2 < 200 then 200 else nFileRecv i * 2)\<rparr>
         else if o_nFileSent i + o_nDeltaSent i > 0 \<or> o_uvDoPush i then c\<lparr>go := 1\<rparr>
         else if o_nPrivIGot i > 0 \<and> nCycle c = 1 then c\<lparr>go := 1\<rparr>
         else if o_nUvGimmeSent i > 0 \<and> (o_nUvFileRcvd i > 0 \<or> nCycle c < 3) then c\<lparr>go := 1\<rparr>
         else if sync_clone
         then (if nCycle c = 1 then c\<lparr>go := 1\<rparr>
               else if nFileRecv i > 0 then c\<lparr>go := 1\<rparr>
               else if cloneSeqno c > 0 \<and> o_nArtifactRcvd i > o_nPriorArtifact i
               then c\<lparr>go := 1\<rparr>
               else c)
         else c)"

text \<open>The requests at the start of a cycle.\<close>

definition cycle_requests ::
  "'db sql_ops \<Rightarrow> bool \<Rightarrow> bool \<Rightarrow> 'db \<Rightarrow> client_state \<Rightarrow> Xfer \<Rightarrow> Xfer" where
  "cycle_requests Q sync_pull sync_clone d c x =
     (if sync_pull \<or> (sync_clone \<and> cloneSeqno c = 1)
      then request_partials Q d (mxPhantomReq c) x else x)"

text \<open>
  The loop \<^verbatim>\<open>while( go )\<close> over the cycles given. For each cycle run, the result
  lists the limit in force and the number of \<^verbatim>\<open>ineed\<close> cards the cycle added.
\<close>

fun client_cycles ::
  "'db sql_ops \<Rightarrow> bool \<Rightarrow> bool \<Rightarrow> 'db cycle_in list \<Rightarrow> client_state \<Rightarrow> Xfer
     \<Rightarrow> (int \<times> int) list" where
  "client_cycles Q sync_pull sync_clone [] c x = []"
| "client_cycles Q sync_pull sync_clone (i # is) c x =
     (if go c = 0 then []
      else (let x1 = cycle_requests Q sync_pull sync_clone (c_db i) c x;
                n = nINeedSent x1 - nINeedSent x
            in if \<not> http_ok i then [(mxPhantomReq c, n)]
               else (mxPhantomReq c, n)
                      # client_cycles Q sync_pull sync_clone is (cycle_end sync_clone i c) x1))"

subsection \<open>Sending one record\<close>

text \<open>
  \<^verbatim>\<open>send_node\<close>. \<open>pUuid\<close> is \<open>None\<close> for the null pointer; \<open>now\<close> is the reading of
  \<^verbatim>\<open>time(NULL)\<close>. The checks come in the order of the source: the private record, the
  peer-have table, the name of the record, the SHA3 name for an old peer, the
  expected name, the shun list, then the deadline and the byte cap, and only then the
  delta or the file card and \<^verbatim>\<open>peer_have\<close>.

  The second check is the statement \<^verbatim>\<open>SELECT 1 FROM peerhave WHERE rid=%d\<close>. When it
  cannot be prepared, \<^verbatim>\<open>db_exists\<close> ends the process with a database error: the
  routine does not return, and the result is \<open>Inl Db_error\<close>. Otherwise the result
  is \<open>Inr\<close> of the session and the database.
\<close>

datatype error = Db_error

definition send_node ::
  "lib_ops \<Rightarrow> 'db sql_ops \<Rightarrow> 'db store_ops \<Rightarrow> 'db ext_ops \<Rightarrow> int
     \<Rightarrow> int \<Rightarrow> blob option \<Rightarrow> bool \<Rightarrow> Xfer \<Rightarrow> 'db \<Rightarrow> error + Xfer \<times> 'db" where
  "send_node L Q S X now rid pUuid nativeDelta x d =
     (let isPriv = content_is_private S d rid in
      if isPriv \<and> syncPrivate x = 0 then
        (case pUuid of
           Some p \<Rightarrow>
             if remoteDate x \<ge> 20200413 \<and> length p > 0
             then Inr (x\<lparr>pOut := pOut x @ ''have '' @ p @ '' 1\<newline>'',
                         nIGotSent := nIGotSent x + 1,
                         nPrivIGot := nPrivIGot x + 1\<rparr>, d)
             else Inr (x, d)
         | None \<Rightarrow> Inr (x, d))
      else
        (case peerhave_has_rid Q d rid of
           None \<Rightarrow> Inl Db_error
         | Some True \<Rightarrow> Inr (x, d)
         | Some False \<Rightarrow>
             (let uuid = blob_uuid Q d rid in
              if length uuid = 0 then Inr (x, d)
              else if int (length uuid) > HNAME_LEN_SHA1 L \<and> remoteVersion x < 20000
              then Inr (xfer_cannot_send_sha3_error X x, d)
              else if (case pUuid of Some p \<Rightarrow> p \<noteq> uuid | None \<Rightarrow> False) then Inr (x, d)
              else
                (let pU = (case pUuid of Some p \<Rightarrow> p | None \<Rightarrow> uuid) in
                 if uuid_is_shunned S d pU then Inr (x, d)
                 else if (maxTime x \<noteq> - 1 \<and> now \<ge> maxTime x) \<or> mxSend x \<le> int (length (pOut x))
                 then Inr (x\<lparr>pOut := pOut x @
                                (if isPriv then ''have '' @ pU @ '' 1\<newline>''
                                 else ''have '' @ pU @ ''\<newline>''),
                             nIGotSent := nIGotSent x + 1\<rparr>, d)
                 else
                   (let r1 = (if nativeDelta
                              then (let r = send_delta_native X x d rid isPriv pU
                                    in if fst r \<noteq> 0
                                       then (fst r, (snd r)\<lparr>nDeltaSent := nDeltaSent (snd r) + 1\<rparr>)
                                       else r)
                              else (0, x));
                        x2 = (if fst r1 = 0
                              then (let content = snd (content_get S d rid);
                                        r2 = (if \<not> nativeDelta \<and> length content > 100
                                              then send_delta_parent X (snd r1) d rid isPriv content pU
                                              else (fst r1, snd r1));
                                        x3 = snd r2
                                    in if fst r2 = 0
                                       then x3\<lparr>pOut := pOut x3
                                                 @ (if isPriv then ''private\<newline>'' else [])
                                                 @ ''file '' @ pU @ '' '' @ dec (int (length content))
                                                 @ ''\<newline>'' @ content,
                                               nFileSent := nFileSent x3 + 1\<rparr>
                                       else x3\<lparr>nDeltaSent := nDeltaSent x3 + 1\<rparr>)
                              else snd r1)
                    in Inr (x2, peer_have Q rid d))))))"

subsection \<open>The login card\<close>

text \<open>\<^verbatim>\<open>check_tail_hash\<close>: true (non-zero) when the hash of the rest of the input is not \<open>pHash\<close>.\<close>

definition check_tail_hash :: "lib_ops \<Rightarrow> blob \<Rightarrow> blob \<Rightarrow> bool" where
  "check_tail_hash L pHash pMsg = (hname_verify_hash L (blob_tail pMsg) pHash = HNAME_ERROR L)"

text \<open>
  \<^verbatim>\<open>check_login\<close>: the return code and the globals; \<open>None\<close> when the assertion on the
  size of the SHA1 text fails. \<^verbatim>\<open>defossilize\<close> decodes the login in place, so the
  decoded text is the login from there on. The statement on the user table is
  written out: the row of that login, which is not one of the four special names
  and has a password.
\<close>

definition check_login ::
  "lib_ops \<Rightarrow> 'db sql_ops \<Rightarrow> 'db ext_ops \<Rightarrow> blob \<Rightarrow> blob \<Rightarrow> blob \<Rightarrow> globals \<Rightarrow> 'db
     \<Rightarrow> (int \<times> globals) option" where
  "check_login L Q X pLogin pNonce pSig gl d =
     (let zLogin = defossilize L pLogin in
      if zLogin = ''nobody'' \<or> zLogin = ''anonymous'' then Some (0, gl)
      else if remote_user X = Some zLogin \<and> db_get_boolean Q d ''remote_user_ok'' False
      then Some (0, gl)
      else
        (case filter (\<lambda>u. fst u = zLogin
                        \<and> fst u \<notin> {''anonymous'', ''nobody'', ''developer'', ''reader''}
                        \<and> length (fst (snd u)) > 0) (user_rows Q d) of
           [] \<Rightarrow> Some (- 1, gl)
         | u # _ \<Rightarrow>
             (let pw = fst (snd u); zCap = fst (snd (snd u)); uid = snd (snd (snd u));
                  szPw = length pw;
                  hash = sha1sum_blob L (pNonce @ pw)
              in if length hash \<noteq> 40 then None
                 else
                   (let rc = blob_constant_time_cmp L hash pSig;
                        rc = (if rc \<noteq> 0 \<and> szPw \<noteq> 40
                              then (let zSecret = sha1_shared_secret L pw zLogin
                                    in blob_constant_time_cmp L
                                         (sha1sum_blob L (pNonce @ zSecret)) pSig)
                              else rc)
                    in if rc = 0
                       then Some (rc, (login_set_capabilities X zCap gl)
                                        \<lparr>userUid := uid, zLogin := zLogin, zNonce := pNonce\<rparr>)
                       else Some (rc, gl)))))"

text \<open>
  The test of the login card in \<^verbatim>\<open>page_xfer\<close>:
  \<^verbatim>\<open>check_tail_hash(...) || check_login(...)\<close>. The result says whether the login
  failed, with the globals; \<open>check_login\<close> is not called when the tail hash fails.
\<close>

definition login_failed ::
  "lib_ops \<Rightarrow> 'db sql_ops \<Rightarrow> 'db ext_ops \<Rightarrow> Xfer \<Rightarrow> globals \<Rightarrow> 'db \<Rightarrow> (bool \<times> globals) option" where
  "login_failed L Q X x gl d =
     (if check_tail_hash L (token x 2) (pIn x) then Some (True, gl)
      else (case check_login L Q X (token x 1) (token x 2) (token x 3) gl d of
              None \<Rightarrow> None
            | Some r \<Rightarrow> Some (fst r \<noteq> 0, snd r)))"

subsection \<open>Receiving an atom node\<close>

text \<open>
  The end of \<^verbatim>\<open>xfer_accept_atom_node\<close>, from the second hash check on: the check,
  \<^verbatim>\<open>content_put_ex\<close>, then the error text of \<^verbatim>\<open>g.zErrMsg\<close> when no record id came
  back, or publication and crosslink, and \<^verbatim>\<open>peer_have\<close>.
\<close>

definition accept_finish ::
  "lib_ops \<Rightarrow> 'db sql_ops \<Rightarrow> 'db store_ops \<Rightarrow> bool \<Rightarrow> globals \<Rightarrow> blob \<Rightarrow> blob \<Rightarrow> Xfer \<Rightarrow> 'db
     \<Rightarrow> Xfer \<times> 'db" where
  "accept_finish L Q S isPriv gl pUuid content x d =
     (let x1 = (if hname_verify_hash L content pUuid = 0
                then x\<lparr>err := err x @ ''wrong hash on received artifact: '' @ pUuid\<rparr>
                else x);
          r = content_put_ex S content pUuid 0 isPriv d;
          rid = fst r
      in if rid = 0
         then (x1\<lparr>err := err x1 @ zErrMsg gl\<rparr>, peer_have Q rid (snd r))
         else (let d1 = (if \<not> isPriv then content_make_public S rid (snd r) else snd r);
                   d2 = manifest_crosslink S rid content d1
               in (x1, peer_have Q rid d2)))"

text \<open>
  \<^verbatim>\<open>xfer_accept_atom_node\<close>. \<open>isPriv\<close> is the value of the local that the routine
  reads without assigning it. The three numbers of the line are bound before the test
  of the line; the test refuses the line when one of them does not parse.
\<close>

definition xfer_accept_atom_node ::
  "lib_ops \<Rightarrow> 'db sql_ops \<Rightarrow> 'db store_ops \<Rightarrow> bool \<Rightarrow> bool \<Rightarrow> globals \<Rightarrow> Xfer \<Rightarrow> 'db
     \<Rightarrow> Xfer \<times> 'db" where
  "xfer_accept_atom_node L Q S cloneFlag isPriv gl x d =
     (let asize = (case blob_is_int L (token x 2) of Some v \<Rightarrow> v | None \<Rightarrow> 0);
          boffset = (case blob_is_int L (token x 3) of Some v \<Rightarrow> v | None \<Rightarrow> 0);
          eoffset = (case blob_is_int L (token x 4) of Some v \<Rightarrow> v | None \<Rightarrow> 0)
      in if nToken x \<noteq> 5
            \<or> \<not> blob_is_hname L (token x 1)
            \<or> blob_is_int L (token x 2) = None
            \<or> blob_is_int L (token x 3) = None
            \<or> blob_is_int L (token x 4) = None
            \<or> asize < 0
            \<or> boffset < 0
            \<or> eoffset < 0
            \<or> eoffset > asize
         then (x\<lparr>err := err x @ ''malformed atom line''\<rparr>, d)
         else
           (let ex = blob_extract (eoffset - boffset) (pIn x);
                content = fst ex;
                x1 = x\<lparr>pIn := snd ex\<rparr>;
                pUuid = token x 1;
                x2 = (if boffset = 0 \<and> eoffset = asize
                      then (if hname_verify_hash L content pUuid = 0
                            then x1\<lparr>err := err x1 @ ''wrong hash on received atom: '' @ pUuid\<rparr>
                            else x1)
                      else x1)
            in if cloneFlag then
                 (let r = (if nToken x2 = 4
                           then (let n = nid_from_uuid Q S (token x2 2) True isPriv d
                                 in (fst n, x2\<lparr>nDeltaRcvd := nDeltaRcvd x2 + 1\<rparr>, snd n))
                           else (0, x2\<lparr>nFileRcvd := nFileRcvd x2 + 1\<rparr>, d));
                      srcid = fst r; x3 = fst (snd r); d1 = snd (snd r);
                      p = content_put_ex S content pUuid srcid isPriv d1
                  in (x3, peer_have Q (fst p) (snd p)))
               else if nToken x2 = 4 then
                 (let n = nid_from_uuid Q S (token x2 2) True isPriv d;
                      srcid = fst n;
                      src = content_get S (snd n) srcid
                  in if fst src = 0
                     then (let p = content_put_ex S content pUuid srcid isPriv (snd n);
                               rid = fst p;
                               d1 = db_multi_exec Q (''DELETE FROM phantom WHERE rid='' @ dec rid)
                                      (snd p);
                               d2 = (if \<not> isPriv then content_make_public S rid d1 else d1)
                           in (x2\<lparr>nDanglingFile := nDanglingFile x2 + 1\<rparr>, d2))
                     else accept_finish L Q S isPriv gl pUuid
                            (blob_delta_apply L (snd src) content)
                            (x2\<lparr>nDeltaRcvd := nDeltaRcvd x2 + 1\<rparr>) (snd n))
               else accept_finish L Q S isPriv gl pUuid content
                      (x2\<lparr>nFileRcvd := nFileRcvd x2 + 1\<rparr>) d))"

subsection \<open>The server handler\<close>

text \<open>
  The locals of \<^verbatim>\<open>page_xfer\<close> with the session, the globals and the database.
  The reply buffer of the CGI layer is \<open>pOut\<close> of the session
  (\<^verbatim>\<open>xfer.pOut = cgi_output_blob()\<close>): \<^verbatim>\<open>cgi_reset_content\<close> empties it and a line
  that starts with \<^verbatim>\<open>@\<close> appends to it. \<open>ticks\<close> counts the readings of the clock.
\<close>

record 'db pstate =
  xfer :: Xfer
  glob :: globals
  dbase :: 'db
  isPull :: bool
  isPush :: bool
  isClone :: bool
  deltaFlag :: bool
  nErr :: int
  nIneed :: int
  uvCatalogSent :: bool
  ticks :: nat

text \<open>
  What a card does to the loop: go on with the next line, leave the loop
  (\<^verbatim>\<open>break\<close>), or end the process (\<^verbatim>\<open>fossil_fatal\<close>, a failed assertion).
\<close>

datatype 'a step = Next 'a | Stop 'a | Fatal string

definition cgi_reset_content :: "'db pstate \<Rightarrow> 'db pstate" where
  "cgi_reset_content s = s\<lparr>xfer := (xfer s)\<lparr>pOut := []\<rparr>\<rparr>"

definition cgi_printf :: "string \<Rightarrow> 'db pstate \<Rightarrow> 'db pstate" where
  "cgi_printf t s = s\<lparr>xfer := (xfer s)\<lparr>pOut := pOut (xfer s) @ t\<rparr>\<rparr>"

text \<open>
  The three statements that most error branches share: clear the reply, write the
  error card, count the error. \<open>msg\<close> is the text of the card as the bytes written.
\<close>

definition reply_error :: "string \<Rightarrow> 'db pstate \<Rightarrow> 'db pstate" where
  "reply_error msg s =
     (cgi_printf (''error '' @ msg @ ''\<newline>'') (cgi_reset_content s))\<lparr>nErr := nErr s + 1\<rparr>"

text \<open>The card \<^verbatim>\<open>atom\<close>.\<close>

definition card_atom :: "'db env \<Rightarrow> 'db pstate \<Rightarrow> 'db pstate step" where
  "card_atom E s =
     (if \<not> isPush s then Stop (reply_error (at_text ''not authorized to write'') s)
      else
        (let r = xfer_accept_atom_node (lib E) (sql E) (sto E) False (uninit_isPriv (ext E))
                   (glob s) (xfer s) (dbase s);
             s1 = s\<lparr>xfer := fst r, dbase := snd r\<rparr>
         in if err (xfer s1) \<noteq> []
            then Stop (reply_error (httpize (lib E) (err (xfer s1))) s1)
            else Next s1))"

text \<open>The card \<^verbatim>\<open>list\<close>.\<close>

definition card_list :: "'db env \<Rightarrow> 'db pstate \<Rightarrow> 'db pstate step" where
  "card_list E s =
     (if \<not> isPush s then Stop (reply_error (at_text ''not authorized to write'') s)
      else
        (let r = xfer_accept_list_node (ext E) (xfer s) (dbase s);
             s1 = s\<lparr>xfer := (xfer s)\<lparr>pIn := drop (fst r) (pIn (xfer s)),
                                     err := err (xfer s) @ fst (snd r)\<rparr>,
                    dbase := snd (snd r)\<rparr>
         in if err (xfer s1) \<noteq> []
            then Stop (reply_error (httpize (lib E) (err (xfer s1))) s1)
            else Next s1))"

text \<open>The card \<^verbatim>\<open>need HASH\<close>.\<close>

definition card_need :: "'db env \<Rightarrow> 'db pstate \<Rightarrow> 'db pstate step" where
  "card_need E s =
     (let s1 = s\<lparr>nIneed := nIneed s + 1,
                  dbase := remote_unk (sto E) (token (xfer s) 1) (dbase s)\<rparr>
      in if isPull s1
         then (let n = nid_from_uuid (sql E) (sto E) (token (xfer s1) 1) False False (dbase s1)
               in if fst n \<noteq> 0
                  then (let r = send_file (ext E) (fst n) (Some (token (xfer s1) 1))
                                  (deltaFlag s1) (xfer s1) (snd n)
                        in Next (s1\<lparr>xfer := (xfer s1)\<lparr>pOut := fst r\<rparr>, dbase := snd r\<rparr>))
                  else Next (s1\<lparr>dbase := snd n\<rparr>))
         else Next s1)"

text \<open>The card \<^verbatim>\<open>have HASH\<close>.\<close>

definition card_have :: "'db env \<Rightarrow> 'db pstate \<Rightarrow> 'db pstate step" where
  "card_have E s =
     (if isPush s
      then (let n = nid_from_uuid (sql E) (sto E) (token (xfer s) 1) True False (dbase s)
            in if fst n \<noteq> 0
               then Next (s\<lparr>dbase := peer_have (sql E) (fst n) (snd n)\<rparr>)
               else Next (s\<lparr>dbase := snd n\<rparr>))
      else Next s)"

text \<open>The cards \<^verbatim>\<open>pull\<close> and \<^verbatim>\<open>push\<close>.\<close>

definition card_pull_push :: "'db env \<Rightarrow> 'db pstate \<Rightarrow> 'db pstate step" where
  "card_pull_push E s =
     (case db_get (sql E) (dbase s) ''project-code'' of
        None \<Rightarrow> Fatal ''missing project code''
      | Some zPCode \<Rightarrow>
          if token (xfer s) 2 \<noteq> zPCode then Stop (reply_error (at_text ''wrong project'') s)
          else
            (let s1 = s\<lparr>glob := login_check_credentials (ext E) (dbase s) (glob s)\<rparr> in
             if token (xfer s1) 0 = ''pull''
             then (if \<not> perm_Read (glob s1)
                   then Stop (reply_error (at_text ''not authorized to read'') s1)
                   else Next (s1\<lparr>isPull := True\<rparr>))
             else (if \<not> perm_Write (glob s1)
                   then (if \<not> isPull s1
                         then Next (reply_error (at_text ''not authorized to write'') s1)
                         else Next (cgi_printf
                                (''message '' @ at_text ''pull only - not authorized to push''
                                   @ ''\<newline>'') s1))
                   else Next (s1\<lparr>isPush := True\<rparr>))))"

text \<open>
  The loop of the card \<^verbatim>\<open>clone\<close> with a protocol version and a sequence number:
  it sends record after record until the reply reaches \<^verbatim>\<open>mxSend\<close>, the sequence
  number passes \<open>mx\<close>, or the clock reaches \<^verbatim>\<open>maxTime\<close>. It gives the sequence number
  and the state.
\<close>

function clone_loop :: "'db env \<Rightarrow> int \<Rightarrow> int \<Rightarrow> int \<Rightarrow> 'db pstate \<Rightarrow> int \<times> 'db pstate" where
  "clone_loop E iVers mx seqno s =
     (if mxSend (xfer s) > int (length (pOut (xfer s))) \<and> seqno \<le> mx
      then (if time_now (lib E) (ticks s) \<ge> maxTime (xfer s)
            then (seqno, s\<lparr>ticks := Suc (ticks s)\<rparr>)
            else clone_loop E iVers mx (seqno + 1)
                   (let r = (if iVers \<ge> 3
                             then send_compressed_file (ext E) seqno (xfer s) (dbase s)
                             else send_file (ext E) seqno None True (xfer s) (dbase s))
                    in s\<lparr>xfer := (xfer s)\<lparr>pOut := fst r\<rparr>, dbase := snd r,
                          ticks := Suc (ticks s)\<rparr>))
      else (seqno, s))"
  by pat_completeness (simp only: prod.inject)
termination
  by (relation "measure (\<lambda>(E, iVers, mx, seqno, s). nat (mx - seqno + 1))") auto

declare clone_loop.simps [simp del]

text \<open>The card \<^verbatim>\<open>clone\<close>: the \<^verbatim>\<open>push\<close> card that it writes, and its three parts.\<close>

definition push_card :: "'db env \<Rightarrow> 'db \<Rightarrow> string" where
  "push_card E d =
     ''push '' @ (case db_get (sql E) d ''server-code'' of None \<Rightarrow> ''x'' | Some v \<Rightarrow> v)
       @ '' '' @ (case db_get (sql E) d ''project-code'' of None \<Rightarrow> ''x'' | Some v \<Rightarrow> v)
       @ ''\<newline>''"

definition clone_catalog :: "'db env \<Rightarrow> 'db pstate \<Rightarrow> 'db pstate" where
  "clone_catalog E s =
     (if db_get_boolean (sql E) (dbase s) ''uv-sync'' False \<and> \<not> uvCatalogSent s
      then (let s1 = cgi_printf ''pragma uv-pull-only\<newline>'' s;
                r = send_unversioned_catalog (ext E) (xfer s1) (dbase s1)
            in s1\<lparr>xfer := (xfer s1)\<lparr>pOut := fst r\<rparr>, dbase := snd r, uvCatalogSent := True\<rparr>)
      else s)"

definition clone_records :: "'db env \<Rightarrow> 'db pstate \<Rightarrow> 'db pstate" where
  "clone_records E s =
     (case blob_is_int (lib E) (token (xfer s) 1) of
        Some iVers \<Rightarrow>
          if nToken (xfer s) = 3 \<and> iVers \<ge> 2
          then (let seqno = (case blob_is_int (lib E) (token (xfer s) 2) of
                               Some v \<Rightarrow> v | None \<Rightarrow> uninit_seqno (ext E));
                    mx = max_blob_rid (sql E) (dbase s);
                    r = clone_loop E iVers mx seqno s
                in cgi_printf (''clone_seqno '' @ dec (if fst r > mx then 0 else fst r)
                                 @ ''\<newline>'') (snd r))
          else s\<lparr>isClone := True, isPull := True, deltaFlag := True\<rparr>
      | None \<Rightarrow> s\<lparr>isClone := True, isPull := True, deltaFlag := True\<rparr>)"

definition card_clone :: "'db env \<Rightarrow> 'db pstate \<Rightarrow> 'db pstate step" where
  "card_clone E s =
     (let s1 = s\<lparr>glob := login_check_credentials (ext E) (dbase s) (glob s)\<rparr> in
      if \<not> perm_Clone (glob s1)
      then Stop ((cgi_printf (''error '' @ at_text ''not authorized to clone'' @ ''\<newline>'')
                   (cgi_printf (push_card E (dbase s1)) (cgi_reset_content s1)))
                 \<lparr>nErr := nErr s1 + 1\<rparr>)
      else (let s3 = clone_records E (clone_catalog E s1)
            in Next (cgi_printf (push_card E (dbase s3)) s3)))"

text \<open>The card \<^verbatim>\<open>login\<close>; \<open>disableLogin\<close> is the static variable of that name.\<close>

definition card_login :: "'db env \<Rightarrow> bool \<Rightarrow> 'db pstate \<Rightarrow> 'db pstate step" where
  "card_login E disableLogin s =
     (if disableLogin
      then Next (s\<lparr>glob := (glob s)\<lparr>perm_Read := True, perm_Write := True,
                                    perm_Private := True, perm_Admin := True\<rparr>\<rparr>)
      else (case login_failed (lib E) (sql E) (ext E) (xfer s) (glob s) (dbase s) of
              None \<Rightarrow> Fatal ''assertion failed''
            | Some r \<Rightarrow>
                if fst r then Stop (reply_error (at_text ''login failed'') (s\<lparr>glob := snd r\<rparr>))
                else Next (s\<lparr>glob := snd r\<rparr>)))"

text \<open>Any other line.\<close>

definition card_unknown :: "'db env \<Rightarrow> 'db pstate \<Rightarrow> 'db pstate step" where
  "card_unknown E s =
     Next (cgi_printf (''error '' @ at_text ''bad command: '' @ fossilize (lib E) (line (xfer s))
                         @ ''\<newline>'')
             (cgi_reset_content s))"

text \<open>The chain of tests on the tokens of a line, in the order of the source.\<close>

definition page_xfer_card :: "'db env \<Rightarrow> bool \<Rightarrow> 'db pstate \<Rightarrow> 'db pstate step" where
  "page_xfer_card E disableLogin s =
     (let x = xfer s; L = lib E in
      if token x 0 = ''atom'' then card_atom E s
      else if token x 0 = ''list'' then card_list E s
      else if token x 0 = ''need'' \<and> nToken x = 2 \<and> blob_is_hname L (token x 1)
      then card_need E s
      else if nToken x = 2 \<and> token x 0 = ''have'' \<and> blob_is_hname L (token x 1)
      then card_have E s
      else if nToken x = 3 \<and> (token x 0 = ''pull'' \<or> token x 0 = ''push'')
              \<and> blob_is_hname L (token x 2)
      then card_pull_push E s
      else if token x 0 = ''clone'' then card_clone E s
      else if token x 0 = ''login'' \<and> nToken x = 4 then card_login E disableLogin s
      else card_unknown E s)"

text \<open>
  No card makes the input longer: the termination of the loop over the lines rests
  on this.
\<close>

lemma accept_finish_pIn:
  "pIn (fst (accept_finish L Q S isPriv gl pUuid content x d)) = pIn x"
  by (simp add: accept_finish_def Let_def)

lemma xfer_accept_atom_node_pIn:
  "length (pIn (fst (xfer_accept_atom_node L Q S cloneFlag isPriv gl x d))) \<le> length (pIn x)"
  by (simp add: xfer_accept_atom_node_def Let_def accept_finish_pIn blob_extract_def)

lemma cgi_printf_pIn: "pIn (xfer (cgi_printf t s)) = pIn (xfer s)"
  by (simp add: cgi_printf_def)

lemma cgi_reset_content_pIn: "pIn (xfer (cgi_reset_content s)) = pIn (xfer s)"
  by (simp add: cgi_reset_content_def)

lemma reply_error_pIn: "pIn (xfer (reply_error m s)) = pIn (xfer s)"
  by (simp add: reply_error_def cgi_printf_pIn cgi_reset_content_pIn)

definition next_pIn_le :: "nat \<Rightarrow> 'db pstate step \<Rightarrow> bool" where
  "next_pIn_le n r = (case r of Next s' \<Rightarrow> length (pIn (xfer s')) \<le> n | _ \<Rightarrow> True)"

lemma card_atom_pIn: "next_pIn_le (length (pIn (xfer s))) (card_atom E s)"
  using xfer_accept_atom_node_pIn [of "lib E" "sql E" "sto E" False "uninit_isPriv (ext E)"
      "glob s" "xfer s" "dbase s"]
  by (simp add: card_atom_def Let_def next_pIn_le_def)

lemma card_list_pIn: "next_pIn_le (length (pIn (xfer s))) (card_list E s)"
  by (simp add: card_list_def Let_def next_pIn_le_def)

lemma card_need_pIn: "next_pIn_le (length (pIn (xfer s))) (card_need E s)"
  by (simp add: card_need_def Let_def next_pIn_le_def)

lemma card_have_pIn: "next_pIn_le (length (pIn (xfer s))) (card_have E s)"
  by (simp add: card_have_def Let_def next_pIn_le_def)

lemma card_pull_push_pIn: "next_pIn_le (length (pIn (xfer s))) (card_pull_push E s)"
  by (simp add: card_pull_push_def Let_def next_pIn_le_def reply_error_pIn cgi_printf_pIn
      split: option.split)

lemma clone_loop_pIn: "pIn (xfer (snd (clone_loop E iVers mx seqno s))) = pIn (xfer s)"
proof (induction E iVers mx seqno s rule: clone_loop.induct)
  case (1 E iVers mx seqno s)
  show ?case
    using "1.IH" by (subst clone_loop.simps) (simp add: Let_def)
qed

lemma clone_catalog_pIn: "pIn (xfer (clone_catalog E s)) = pIn (xfer s)"
  by (simp add: clone_catalog_def Let_def cgi_printf_pIn)

lemma clone_records_pIn: "pIn (xfer (clone_records E s)) = pIn (xfer s)"
  by (simp add: clone_records_def Let_def cgi_printf_pIn clone_loop_pIn split: option.split)

lemma card_clone_pIn: "next_pIn_le (length (pIn (xfer s))) (card_clone E s)"
  by (simp add: card_clone_def Let_def next_pIn_le_def cgi_printf_pIn clone_records_pIn
      clone_catalog_pIn)

lemma card_login_pIn: "next_pIn_le (length (pIn (xfer s))) (card_login E disableLogin s)"
  by (simp add: card_login_def Let_def next_pIn_le_def split: option.split)

lemma card_unknown_pIn: "next_pIn_le (length (pIn (xfer s))) (card_unknown E s)"
  by (simp add: card_unknown_def next_pIn_le_def cgi_printf_pIn cgi_reset_content_pIn)

lemma page_xfer_card_pIn:
  assumes "page_xfer_card E disableLogin s = Next s'"
  shows "length (pIn (xfer s')) \<le> length (pIn (xfer s))"
proof -
  have "next_pIn_le (length (pIn (xfer s))) (page_xfer_card E disableLogin s)"
    by (simp add: page_xfer_card_def Let_def card_atom_pIn card_list_pIn card_need_pIn
        card_have_pIn card_pull_push_pIn card_clone_pIn card_login_pIn card_unknown_pIn)
  with assms show ?thesis by (simp add: next_pIn_le_def)
qed

lemma blob_line_shorter:
  "blob_line s = Some lr \<Longrightarrow> length (snd lr) < length s"
proof -
  assume a: "blob_line s = Some lr"
  then have ne: "s \<noteq> []" by (auto simp: blob_line_def split: if_splits)
  have "length (dropWhile (\<lambda>c. c \<noteq> CHR 0x0A) s) \<le> length s" by (rule length_dropWhile_le)
  moreover have "snd lr = drop 1 (dropWhile (\<lambda>c. c \<noteq> CHR 0x0A) s)"
    using a by (auto simp: blob_line_def split: if_splits)
  ultimately show ?thesis using ne by (cases "dropWhile (\<lambda>c. c \<noteq> CHR 0x0A) s") auto
qed

text \<open>
  One turn of the loop over the lines, for the line \<open>fst lr\<close> with the input
  \<open>snd lr\<close> after it: a comment or an empty line is passed over; any other line is
  split into at most six tokens and handled as a card, after which the tokens and
  the line are reset.
\<close>

definition page_xfer_line ::
  "'db env \<Rightarrow> bool \<Rightarrow> 'db pstate \<Rightarrow> blob \<times> blob \<Rightarrow> 'db pstate step" where
  "page_xfer_line E disableLogin s lr =
     (let s1 = s\<lparr>xfer := (xfer s)\<lparr>line := fst lr, pIn := snd lr\<rparr>\<rparr> in
      if (case fst lr of [] \<Rightarrow> False | c # _ \<Rightarrow> c = CHR ''#'') then Next s1
      else if length (fst lr) = 0 then Next s1
      else
        (let toks = take 6 (blob_tokenize (lib E) (fst lr));
             s2 = s1\<lparr>xfer := (xfer s1)\<lparr>aToken := toks, nToken := int (length toks)\<rparr>\<rparr>
         in case page_xfer_card E disableLogin s2 of
              Next s3 \<Rightarrow> Next (s3\<lparr>xfer := (xfer s3)\<lparr>aToken := [], line := []\<rparr>\<rparr>)
            | Stop s3 \<Rightarrow> Stop s3
            | Fatal m \<Rightarrow> Fatal m))"

lemma page_xfer_line_pIn:
  assumes "page_xfer_line E disableLogin s lr = Next s'"
  shows "length (pIn (xfer s')) \<le> length (snd lr)"
proof -
  let ?s1 = "s\<lparr>xfer := (xfer s)\<lparr>line := fst lr, pIn := snd lr\<rparr>\<rparr>"
  let ?toks = "take 6 (blob_tokenize (lib E) (fst lr))"
  let ?s2 = "?s1\<lparr>xfer := (xfer ?s1)\<lparr>aToken := ?toks, nToken := int (length ?toks)\<rparr>\<rparr>"
  have "next_pIn_le (length (pIn (xfer ?s2))) (page_xfer_card E disableLogin ?s2)"
    using page_xfer_card_pIn [of E disableLogin ?s2]
    by (cases "page_xfer_card E disableLogin ?s2") (simp_all add: next_pIn_le_def)
  then have "next_pIn_le (length (snd lr)) (page_xfer_card E disableLogin ?s2)" by simp
  with assms show ?thesis
    by (auto simp: page_xfer_line_def Let_def next_pIn_le_def split: if_splits step.splits)
qed

text \<open>The loop \<^verbatim>\<open>while( blob_line(xfer.pIn, &xfer.line) )\<close>.\<close>

function page_xfer_loop :: "'db env \<Rightarrow> bool \<Rightarrow> 'db pstate \<Rightarrow> 'db pstate step" where
  "page_xfer_loop E disableLogin s =
     (case blob_line (pIn (xfer s)) of
        None \<Rightarrow> Next s
      | Some lr \<Rightarrow>
          (case page_xfer_line E disableLogin s lr of
             Next s' \<Rightarrow> page_xfer_loop E disableLogin s'
           | Stop s' \<Rightarrow> Stop s'
           | Fatal m \<Rightarrow> Fatal m))"
  by pat_completeness (simp only: prod.inject)
termination
proof (relation "measure (\<lambda>(E, disableLogin, s). length (pIn (xfer s)))")
  show "wf (measure (\<lambda>(E, disableLogin, s). length (pIn (xfer s))))" by simp
next
  fix E :: "'db env" and disableLogin :: bool and s s' :: "'db pstate" and lr :: "blob \<times> blob"
  assume bl: "blob_line (pIn (xfer s)) = Some lr"
    and c: "page_xfer_line E disableLogin s lr = Next s'"
  from page_xfer_line_pIn [OF c] blob_line_shorter [OF bl]
  show "((E, disableLogin, s'), (E, disableLogin, s))
      \<in> measure (\<lambda>(E, disableLogin, s). length (pIn (xfer s)))"
    by simp
qed

declare page_xfer_loop.simps [simp del]

text \<open>
  The end of \<^verbatim>\<open>page_xfer\<close>, after the loop, whether the loop ran to the end of the
  input or was left by \<^verbatim>\<open>break\<close>: the requests for partial nodes when push is
  authorized, the announcements, the dropping of the two tables, the closing
  comment with the time and the number of errors, and the commit. The block that
  sends links is guarded by \<^verbatim>\<open>bSendLinks\<close>, which is 0 throughout, and
  \<^verbatim>\<open>hook_expecting_more_artifacts\<close> is not handed the session or the database; both
  are left out.
\<close>

definition page_xfer_finish :: "'db env \<Rightarrow> 'db pstate \<Rightarrow> 'db pstate" where
  "page_xfer_finish E s =
     (let Q = sql E;
          x1 = (if isPush s then request_partials Q (dbase s) 500 (xfer s) else xfer s);
          r = (if isClone s \<and> nIneed s = 0
               then (let xa = send_all Q (dbase s) x1
                     in (if syncPrivate xa \<noteq> 0 then fst (send_private Q (dbase s) xa) else xa,
                         dbase s))
               else if isPull s
               then (let d1 = create_list_node Q (uninit_rid (ext E)) (dbase s);
                         xa = fst (send_root Q d1 x1)
                     in (if syncPrivate xa \<noteq> 0 then fst (send_private Q d1 xa) else xa, d1))
               else (x1, dbase s));
          d3 = manifest_crosslink_end (sto E)
                 (db_multi_exec Q ''DROP TABLE peerhave; DROP TABLE peerneed;'' (snd r));
          x3 = (fst r)\<lparr>pOut := pOut (fst r) @ ''# timestamp '' @ now_text (ext E) d3
                                   @ '' errors '' @ dec (nErr s) @ ''\<newline>''\<rparr>
      in s\<lparr>xfer := x3, dbase := configure_rebuild (sto E) (db_commit_transaction (sto E) d3)\<rparr>)"

text \<open>
  \<^verbatim>\<open>page_xfer\<close> for the request body \<open>cgiIn\<close>: the reply is \<open>pOut\<close> of the session
  in the final state. A request that is not a POST is redirected, and an outdated
  schema is answered by an error card alone.
\<close>

datatype 'a outcome = Replied 'a | Redirected | Aborted string

definition page_xfer_start :: "'db env \<Rightarrow> globals \<Rightarrow> 'db \<Rightarrow> 'db pstate" where
  "page_xfer_start E gl d =
     (let gl1 = login_check_credentials (ext E) d
                  (login_set_anon_nobody_capabilities (ext E) d (gl\<lparr>zLogin := ''anonymous''\<rparr>))
      in \<lparr>xfer = xfer_zero, glob = gl1, dbase = d, isPull = False, isPush = False,
          isClone = False, deltaFlag = False, nErr = 0, nIneed = 0, uvCatalogSent = False,
          ticks = 0\<rparr>)"

text \<open>
  The state in which \<^verbatim>\<open>page_xfer\<close> enters its loop: the request body is the input,
  the byte cap and the deadline are set, and the transaction with the two temporary
  tables is open.
\<close>

definition page_xfer_enter :: "'db env \<Rightarrow> blob \<Rightarrow> globals \<Rightarrow> 'db \<Rightarrow> 'db pstate" where
  "page_xfer_enter E cgiIn gl d =
     (let s0 = page_xfer_start E gl d;
          t = db_get_int (sql E) d ''max-download-time'' 30;
          x = (xfer s0)\<lparr>pIn := cgiIn,
                 mxSend := db_get_int (sql E) d ''max-download'' 5000000,
                 maxTime := (if t < 1 then 1 else t) + time_now (lib E) 0\<rparr>;
          d1 = manifest_crosslink_begin (sto E)
                 (db_multi_exec (sql E)
                    (''CREATE TEMP TABLE peerhave(uuid TEXT PRIMARY KEY) WITHOUT ROWID;''
                       @ ''CREATE TEMP TABLE peerneed(uuid TEXT PRIMARY KEY) WITHOUT ROWID;'')
                    (db_begin_write (sto E) d))
      in s0\<lparr>xfer := x, dbase := d1, ticks := 1\<rparr>)"

definition page_xfer :: "'db env \<Rightarrow> bool \<Rightarrow> blob \<Rightarrow> globals \<Rightarrow> 'db \<Rightarrow> 'db pstate outcome" where
  "page_xfer E disableLogin cgiIn gl d =
     (if request_method (ext E) \<noteq> ''POST'' then Redirected
      else if db_schema_is_outofdate (sql E) d
      then Replied (cgi_printf
             (''error '' @ at_text ''database schema is out-of-date on the server.''
                @ ''\<newline>'') (page_xfer_start E gl d))
      else
        (case page_xfer_loop E disableLogin (page_xfer_enter E cgiIn gl d) of
           Next s2 \<Rightarrow> Replied (page_xfer_finish E s2)
         | Stop s2 \<Rightarrow> Replied (page_xfer_finish E s2)
         | Fatal m \<Rightarrow> Aborted m))"

text \<open>The text of the reply.\<close>

definition reply_text :: "'db pstate outcome \<Rightarrow> string option" where
  "reply_text r = (case r of Replied s \<Rightarrow> Some (pOut (xfer s)) | _ \<Rightarrow> None)"


subsection \<open>A small store for running the routines\<close>

text \<open>
  The routines are run on concrete inputs over this in-memory database: the tables
  as lists, a content table from record id to bytes, and a log of the statements
  passed to \<^verbatim>\<open>db_multi_exec\<close>. Its hash (\<open>toy_hash\<close>) names a content by its length.

  The table \<^verbatim>\<open>peerhave\<close> is the one that \<^verbatim>\<open>page_xfer\<close> and \<^verbatim>\<open>client_sync\<close> create,
  \<^verbatim>\<open>peerhave(uuid TEXT PRIMARY KEY) WITHOUT ROWID\<close>: \<open>t_peerhave\<close> is its column
  \<^verbatim>\<open>uuid\<close>. \<^verbatim>\<open>peer_have\<close> inserts a record id, which the text column keeps as its
  decimal numeral, once. The table has no column \<^verbatim>\<open>rid\<close>, so the statement of
  \<^verbatim>\<open>send_node\<close> that selects by \<^verbatim>\<open>rid\<close> cannot be prepared on it.
\<close>

record tdb =
  t_node :: "(string \<times> int) list"
  t_content :: "(int \<times> blob) list"
  t_root :: "int list"
  t_partial :: "(string \<times> int) list"
  t_users :: "(string \<times> string \<times> string \<times> int) list"
  t_peerhave :: "string list"
  t_peerneed :: "string list"
  t_priv :: "int list"
  t_shun :: "string list"
  t_config :: "(string \<times> string) list"
  t_sql :: "string list"

definition tdb_empty :: tdb where
  "tdb_empty = \<lparr>t_node = [], t_content = [], t_root = [], t_partial = [], t_users = [],
     t_peerhave = [], t_peerneed = [], t_priv = [], t_shun = [], t_config = [], t_sql = []\<rparr>"

definition t_nid :: "tdb \<Rightarrow> string \<Rightarrow> int" where
  "t_nid d u = (case map_of (t_node d) u of None \<Rightarrow> 0 | Some n \<Rightarrow> n)"

definition t_name :: "tdb \<Rightarrow> int \<Rightarrow> string" where
  "t_name d n = (case filter (\<lambda>r. snd r = n) (t_node d) of [] \<Rightarrow> [] | r # _ \<Rightarrow> fst r)"

definition t_peer_have :: "int \<Rightarrow> tdb \<Rightarrow> tdb" where
  "t_peer_have n d =
     (if dec n \<in> set (t_peerhave d) then d else d\<lparr>t_peerhave := t_peerhave d @ [dec n]\<rparr>)"

definition test_sql :: "tdb sql_ops" where
  "test_sql = \<lparr>
     node_rows = t_node,
     root_rows = t_root,
     partial_rows = t_partial,
     user_rows = t_users,
     private_uuids = (\<lambda>d. map (t_name d) (t_priv d)),
     peerhave_exists = (\<lambda>d. True),
     peerhave_has_uuid = (\<lambda>d u. u \<in> set (t_peerhave d)),
     peerhave_has_rid = (\<lambda>d n. None),
     peerneed_has_uuid = (\<lambda>d u. u \<in> set (t_peerneed d)),
     blob_uuid = (\<lambda>d n. if map_of (t_content d) n = None then [] else t_name d n),
     max_blob_rid = (\<lambda>d. fold max (map snd (t_node d)) 0),
     peerhave_insert = t_peer_have,
     db_multi_exec = (\<lambda>q d. d\<lparr>t_sql := t_sql d @ [q]\<rparr>),
     db_get = (\<lambda>d k. map_of (t_config d) k),
     db_get_int = (\<lambda>d k dflt. dflt),
     db_get_boolean = (\<lambda>d k dflt. dflt),
     db_schema_is_outofdate = (\<lambda>d. False)\<rparr>"

definition t_new :: "string \<Rightarrow> bool \<Rightarrow> tdb \<Rightarrow> int \<times> tdb" where
  "t_new u priv d =
     (let n = fold max (map snd (t_node d)) 0 + 1
      in (n, d\<lparr>t_node := t_node d @ [(u, n)],
               t_priv := (if priv then n # t_priv d else t_priv d)\<rparr>))"

definition t_put :: "blob \<Rightarrow> string \<Rightarrow> int \<Rightarrow> bool \<Rightarrow> tdb \<Rightarrow> int \<times> tdb" where
  "t_put content u srcid priv d =
     (let r = (if t_nid d u = 0 then t_new u priv d else (t_nid d u, d))
      in (fst r, (snd r)\<lparr>t_content := (fst r, content) # t_content (snd r)\<rparr>))"

definition test_store :: "tdb store_ops" where
  "test_store = \<lparr>
     content_new = t_new,
     content_put_ex = t_put,
     content_get = (\<lambda>d n. case map_of (t_content d) n of None \<Rightarrow> (0, []) | Some c \<Rightarrow> (1, c)),
     content_make_public = (\<lambda>n d. d\<lparr>t_priv := removeAll n (t_priv d)\<rparr>),
     content_is_private = (\<lambda>d n. n \<in> set (t_priv d)),
     uuid_is_shunned = (\<lambda>d u. u \<in> set (t_shun d)),
     manifest_crosslink = (\<lambda>n c d. d),
     manifest_crosslink_begin = (\<lambda>d. d),
     manifest_crosslink_end = (\<lambda>d. d),
     remote_unk = (\<lambda>u d. d\<lparr>t_peerneed := u # t_peerneed d\<rparr>),
     db_begin_write = (\<lambda>d. d),
     db_commit_transaction = (\<lambda>d. d),
     configure_rebuild = (\<lambda>d. d)\<rparr>"

text \<open>
  Stand-ins for the routines that are handed the session: \<open>send_file\<close> writes a
  file card for a record whose content is stored, capabilities are letters of the
  capability string, and nobody is logged in by the web server.
\<close>

definition test_ext :: "tdb ext_ops" where
  "test_ext = \<lparr>
     send_file = (\<lambda>rid pUuid delta x d.
        case map_of (t_content d) rid of
          None \<Rightarrow> (pOut x, d)
        | Some c \<Rightarrow> (pOut x @ ''file '' @ t_name d rid @ '' '' @ dec (int (length c))
                       @ ''\<newline>'' @ c, t_peer_have rid d)),
     send_compressed_file = (\<lambda>rid x d. (pOut x, d)),
     send_unversioned_catalog = (\<lambda>x d. (pOut x, d)),
     xfer_accept_list_node = (\<lambda>x d. (0, [], d)),
     xfer_cannot_send_sha3_error = (\<lambda>x. x\<lparr>pOut := pOut x @ ''error sha3\<newline>''\<rparr>),
     send_delta_native = (\<lambda>x d rid priv u. (0, x)),
     send_delta_parent = (\<lambda>x d rid priv c u. (0, x)),
     login_set_capabilities = (\<lambda>cap gl. gl\<lparr>
        perm_Read := perm_Read gl \<or> CHR ''o'' \<in> set cap,
        perm_Write := perm_Write gl \<or> CHR ''i'' \<in> set cap,
        perm_Clone := perm_Clone gl \<or> CHR ''g'' \<in> set cap\<rparr>),
     login_check_credentials = (\<lambda>d gl. gl),
     login_set_anon_nobody_capabilities = (\<lambda>d gl. gl\<lparr>perm_Read := True, perm_Clone := True\<rparr>),
     remote_user = None,
     request_method = ''POST'',
     now_text = (\<lambda>d. ''2024-01-01T00:00:00''),
     uninit_isPriv = False,
     uninit_seqno = 0,
     uninit_rid = 0\<rparr>"

definition toy_hash :: "blob \<Rightarrow> string" where
  "toy_hash c = replicate 39 (CHR ''0'') @ [''0123456789abcdef'' ! (length c mod 16)]"

definition digit_of :: "char \<Rightarrow> int option" where
  "digit_of c = map_of (zip ''0123456789'' [0, 1, 2, 3, 4, 5, 6, 7, 8, 9]) c"

fun parse_int :: "string \<Rightarrow> int \<Rightarrow> int option" where
  "parse_int [] v = Some v"
| "parse_int (c # cs) v =
     (case digit_of c of None \<Rightarrow> None | Some k \<Rightarrow> parse_int cs (v * 10 + k))"

fun split_tokens :: "string \<Rightarrow> string \<Rightarrow> string list" where
  "split_tokens [] cur = (if cur = [] then [] else [cur])"
| "split_tokens (c # cs) cur =
     (if c = CHR '' '' \<or> c = CHR 0x0A
      then (if cur = [] then split_tokens cs [] else cur # split_tokens cs [])
      else split_tokens cs (cur @ [c]))"

definition test_lib :: lib_ops where
  "test_lib = \<lparr>
     blob_is_hname = (\<lambda>t. length t = 40),
     blob_is_int = (\<lambda>t. parse_int t 0),
     blob_tokenize = (\<lambda>l. split_tokens l []),
     hname_verify_hash = (\<lambda>c h. if h = toy_hash c then 1 else 0),
     HNAME_ERROR = 0,
     HNAME_LEN_SHA1 = 40,
     blob_delta_apply = (\<lambda>src delta. src @ delta),
     defossilize = (\<lambda>s. s),
     fossilize = at_text,
     httpize = at_text,
     sha1sum_blob = toy_hash,
     sha1_shared_secret = (\<lambda>pw login. toy_hash (pw @ login)),
     blob_constant_time_cmp = (\<lambda>a b. if a = b then 0 else 1),
     time_now = (\<lambda>k. 1000 + int k)\<rparr>"

text \<open>The globals before a request, and the four records of routines together.\<close>

definition globals_zero :: globals where
  "globals_zero = \<lparr>perm_Read = False, perm_Write = False, perm_Clone = False,
     perm_Private = False, perm_Admin = False, userUid = 0, zLogin = [], zNonce = [],
     zErrMsg = []\<rparr>"

definition test_env :: "tdb env" where
  "test_env = \<lparr>lib = test_lib, sql = test_sql, sto = test_store, ext = test_ext\<rparr>"

text \<open>Three records with the ids 1, 3 and 7; the sweep starts at cursor 5 with the cap at 0.\<close>

definition db_three :: tdb where
  "db_three = tdb_empty\<lparr>t_node := [(''a'', 1), (''b'', 3), (''c'', 7)]\<rparr>"

definition xfer_sweep :: Xfer where
  "xfer_sweep = xfer_zero\<lparr>resync := 5\<rparr>"

text \<open>
  Three cycles of a pulling client: 101 files arrive while phantoms remain; then nothing
  arrives but a file is sent; then 201 partial nodes are on record.
\<close>

definition cycle_quiet :: "tdb cycle_in" where
  "cycle_quiet = \<lparr>c_db = tdb_empty, http_ok = True, o_nFileRcvd = 0, o_nDeltaRcvd = 0,
     o_nDanglingFile = 0, o_newPhantom = False, o_phantom_exists = False, o_nFileSent = 0,
     o_nDeltaSent = 0, o_uvDoPush = False, o_nPrivIGot = 0, o_nUvGimmeSent = 0,
     o_nUvFileRcvd = 0, o_cloneSeqno = 0, o_nArtifactRcvd = 0, o_nPriorArtifact = 0\<rparr>"

definition stale_cycles :: "tdb cycle_in list" where
  "stale_cycles =
     [cycle_quiet\<lparr>o_nFileRcvd := 101, o_phantom_exists := True\<rparr>,
      cycle_quiet\<lparr>o_nFileSent := 1\<rparr>,
      cycle_quiet\<lparr>c_db := tdb_empty\<lparr>t_partial := replicate 201 (''p'', 0)\<rparr>\<rparr>]"

text \<open>
  A store with one record, public (\<open>db_hello\<close>) or private (\<open>db_secret\<close>); a session
  whose reply buffer is at its byte cap, and a session of a recent peer below the cap
  and at the cap.
\<close>

definition db_hello :: tdb where
  "db_hello = tdb_empty\<lparr>t_node := [(toy_hash ''hello'', 1)], t_content := [(1, ''hello'')]\<rparr>"





text \<open>
  The session at a card \<^verbatim>\<open>atom H DELTASRC 5\<close> with its payload, and at a complete
  atom card whose payload does not hash to the name on the card.
\<close>

definition xfer_delta_card :: Xfer where
  "xfer_delta_card = xfer_zero\<lparr>aToken := [''atom'', toy_hash ''hello'', toy_hash ''base'', ''5''],
     nToken := 4, pIn := ''hello''\<rparr>"

definition xfer_bad_hash :: Xfer where
  "xfer_bad_hash = xfer_zero\<lparr>aToken := [''atom'', toy_hash ''hellos'', ''5'', ''0'', ''5''],
     nToken := 5, pIn := ''hello''\<rparr>"

text \<open>
  A user with a clear-text password; login lines of that user with a wrong
  signature, and of \<^verbatim>\<open>anonymous\<close> with the hash of the empty rest of the request.
\<close>

definition db_users :: tdb where
  "db_users = tdb_empty\<lparr>t_users := [(''alice'', ''secret'', ''i'', 7)]\<rparr>"

definition xfer_login_alice :: Xfer where
  "xfer_login_alice = xfer_zero\<lparr>aToken := [''login'', ''alice'', ''n'', ''s''], nToken := 4\<rparr>"

definition st_login_anon :: "tdb pstate" where
  "st_login_anon = (page_xfer_start test_env globals_zero tdb_empty)
     \<lparr>xfer := xfer_zero\<lparr>aToken := [''login'', ''anonymous'', toy_hash [], ''s''], nToken := 4\<rparr>\<rparr>"

definition req_anon :: blob where
  "req_anon = ''login anonymous n s\<newline>''"

text \<open>The state of the handler at the login line of the user \<^verbatim>\<open>alice\<close>.\<close>

definition st_login_alice :: "tdb pstate" where
  "st_login_alice = (page_xfer_start test_env globals_zero db_users)\<lparr>xfer := xfer_login_alice\<rparr>"

text \<open>
  The state at a login line of \<^verbatim>\<open>anonymous\<close> that follows an accepted login of
  \<^verbatim>\<open>alice\<close>, who may write.
\<close>

definition st_login_anon_alice :: "tdb pstate" where
  "st_login_anon_alice = (page_xfer_start test_env globals_zero db_users)
     \<lparr>xfer := xfer_zero\<lparr>aToken := [''login'', ''anonymous'', toy_hash [], ''s''], nToken := 4\<rparr>,
      glob := (case check_login test_lib test_sql test_ext ''alice'' (toy_hash [])
                      (toy_hash (toy_hash [] @ ''secret''))
                      (glob (page_xfer_start test_env globals_zero db_users)) db_users of
                 Some r \<Rightarrow> snd r
               | None \<Rightarrow> globals_zero)\<rparr>"

text \<open>
  Requests for the handler: a lone \<^verbatim>\<open>have\<close> card; a \<^verbatim>\<open>pull\<close> card followed by an
  \<^verbatim>\<open>atom\<close> card, for a store with one root; and the states of the handler before
  its loop and where the loop is left.
\<close>

definition db_rooted :: tdb where
  "db_rooted = db_hello\<lparr>t_root := [1], t_config := [(''project-code'', toy_hash ''p'')]\<rparr>"

definition req_have :: blob where
  "req_have = ''have '' @ toy_hash ''hello'' @ ''\<newline>''"




definition st_atom :: "tdb pstate" where
  "st_atom = (page_xfer_start test_env globals_zero tdb_empty)
     \<lparr>xfer := xfer_zero\<lparr>aToken := [''atom''], nToken := 1\<rparr>\<rparr>"

definition st_have :: "tdb pstate" where
  "st_have = (page_xfer_start test_env globals_zero tdb_empty)
     \<lparr>xfer := xfer_zero\<lparr>aToken := [''have'', toy_hash ''hello''], nToken := 2\<rparr>\<rparr>"

text \<open>
  The state at a \<^verbatim>\<open>push\<close> card with the project code of the store, for a user who may
  not write; and a request that is a lone \<^verbatim>\<open>atom\<close> line, with the state in which the
  loop is left on it.
\<close>

definition st_push :: "tdb pstate" where
  "st_push = (page_xfer_start test_env globals_zero db_rooted)
     \<lparr>xfer := xfer_zero\<lparr>aToken := [''push'', ''x'', toy_hash ''p''], nToken := 3\<rparr>\<rparr>"

definition st_atom_line :: "tdb pstate" where
  "st_atom_line = page_xfer_enter test_env ''atom\<newline>'' globals_zero tdb_empty"

definition st_atom_left :: "tdb pstate" where
  "st_atom_left = reply_error (at_text ''not authorized to write'')
     (st_atom_line\<lparr>xfer := (xfer st_atom_line)\<lparr>line := ''atom'', pIn := [],
                                               aToken := [''atom''], nToken := 1\<rparr>\<rparr>)"

section \<open>Properties\<close>

subsection \<open>The loop over the lines, one turn at a time\<close>

lemma page_xfer_loop_end: "pIn (xfer s) = [] \<Longrightarrow> page_xfer_loop E dl s = Next s"
  by (subst page_xfer_loop.simps) (simp add: blob_line_def)

lemma page_xfer_loop_step:
  "blob_line (pIn (xfer s)) = Some lr \<Longrightarrow>
   page_xfer_loop E dl s =
     (case page_xfer_line E dl s lr of
        Next s' \<Rightarrow> page_xfer_loop E dl s' | Stop s' \<Rightarrow> Stop s' | Fatal m \<Rightarrow> Fatal m)"
  by (subst page_xfer_loop.simps) simp

subsection \<open>What an error branch leaves in the reply\<close>

lemma reply_error_pOut: "pOut (xfer (reply_error m s)) = ''error '' @ m @ ''\<newline>''"
  by (simp add: reply_error_def cgi_printf_def cgi_reset_content_def)

lemma reply_error_nErr: "nErr (reply_error m s) = nErr s + 1"
  by (simp add: reply_error_def cgi_printf_def cgi_reset_content_def)

lemma reply_error_dbase: "dbase (reply_error m s) = dbase s"
  by (simp add: reply_error_def cgi_printf_def cgi_reset_content_def)

lemma reply_error_glob: "glob (reply_error m s) = glob s"
  by (simp add: reply_error_def cgi_printf_def cgi_reset_content_def)

subsection \<open>A received atom whose content does not hash to its name\<close>

text \<open>
  Claim C1. The routine records the error, and the handler then leaves the loop, but
  the content is stored all the same: for a complete atom card whose payload does not
  hash to the name \<open>H\<close> on the card, \<^verbatim>\<open>xfer_accept_atom_node\<close> appends both
  wrong-hash messages to \<open>err\<close> and still calls \<^verbatim>\<open>content_put_ex\<close> with that payload
  under the name \<open>H\<close>, and publishes, crosslinks and enters in peer-have the record
  that comes back. The theorem states what the code does; the claim asks for the
  content not to be stored.
\<close>

theorem accept_atom_wrong_hash_stored:
  assumes five: "nToken x = 5"
      and name: "blob_is_hname L (token x 1)"
      and ints: "blob_is_int L (token x 2) = Some n" "blob_is_int L (token x 3) = Some 0"
                "blob_is_int L (token x 4) = Some n"
      and size: "0 \<le> n"
      and bad: "hname_verify_hash L (take (nat n) (pIn x)) (token x 1) = 0"
  shows "xfer_accept_atom_node L Q S False isPriv gl x d =
     (let content = take (nat n) (pIn x);
          p = content_put_ex S content (token x 1) 0 isPriv d;
          rid = fst p
      in (x\<lparr>pIn := drop (nat n) (pIn x),
            err := err x @ ''wrong hash on received atom: '' @ token x 1
                     @ ''wrong hash on received artifact: '' @ token x 1
                     @ (if rid = 0 then zErrMsg gl else []),
            nFileRcvd := nFileRcvd x + 1\<rparr>,
          peer_have Q rid
            (if rid = 0 then snd p
             else manifest_crosslink S rid content
                    (if \<not> isPriv then content_make_public S rid (snd p) else snd p))))"
  using assms
  by (simp add: xfer_accept_atom_node_def Let_def blob_extract_def accept_finish_def
      del: One_nat_def)

theorem accept_atom_wrong_hash_stored_witness:
  "nToken xfer_bad_hash = 5
   \<and> hname_verify_hash test_lib ''hello'' (token xfer_bad_hash 1) = 0
   \<and> err (fst (xfer_accept_atom_node test_lib test_sql test_store False False globals_zero
        xfer_bad_hash tdb_empty))
      = ''wrong hash on received atom: '' @ toy_hash ''hellos''
        @ ''wrong hash on received artifact: '' @ toy_hash ''hellos''
   \<and> node_rows test_sql (snd (xfer_accept_atom_node test_lib test_sql test_store False False
        globals_zero xfer_bad_hash tdb_empty)) = [(toy_hash ''hellos'', 1)]
   \<and> content_get test_store (snd (xfer_accept_atom_node test_lib test_sql test_store False False
        globals_zero xfer_bad_hash tdb_empty)) 1 = (1, ''hello'')"
proof -
  have five: "nToken xfer_bad_hash = 5" by code_simp
  have name: "blob_is_hname test_lib (token xfer_bad_hash 1)" by code_simp
  have ints: "blob_is_int test_lib (token xfer_bad_hash 2) = Some 5"
    "blob_is_int test_lib (token xfer_bad_hash 3) = Some 0"
    "blob_is_int test_lib (token xfer_bad_hash 4) = Some 5" by code_simp+
  have bad: "hname_verify_hash test_lib (take (nat 5) (pIn xfer_bad_hash)) (token xfer_bad_hash 1) = 0"
    by code_simp
  have bad': "hname_verify_hash test_lib ''hello'' (token xfer_bad_hash 1) = 0" by code_simp
  note e = accept_atom_wrong_hash_stored [OF five name ints _ bad, of test_sql test_store False
      globals_zero tdb_empty]
  have r: "(let content = take (nat 5) (pIn xfer_bad_hash);
          p = content_put_ex test_store content (token xfer_bad_hash 1) 0 False tdb_empty;
          rid = fst p
      in (xfer_bad_hash\<lparr>pIn := drop (nat 5) (pIn xfer_bad_hash),
            err := err xfer_bad_hash @ ''wrong hash on received atom: '' @ token xfer_bad_hash 1
                     @ ''wrong hash on received artifact: '' @ token xfer_bad_hash 1
                     @ (if rid = 0 then zErrMsg globals_zero else []),
            nFileRcvd := nFileRcvd xfer_bad_hash + 1\<rparr>,
          peer_have test_sql rid
            (if rid = 0 then snd p
             else manifest_crosslink test_store rid content
                    (if \<not> False then content_make_public test_store rid (snd p) else snd p))))
     = (xfer_bad_hash\<lparr>pIn := [], err := ''wrong hash on received atom: '' @ toy_hash ''hellos''
           @ ''wrong hash on received artifact: '' @ toy_hash ''hellos'', nFileRcvd := 1\<rparr>,
        tdb_empty\<lparr>t_node := [(toy_hash ''hellos'', 1)], t_content := [(1, ''hello'')],
          t_peerhave := [''1'']\<rparr>)"
    by code_simp
  have q: "node_rows test_sql (tdb_empty\<lparr>t_node := [(toy_hash ''hellos'', 1)],
      t_content := [(1, ''hello'')], t_peerhave := [''1'']\<rparr>) = [(toy_hash ''hellos'', 1)]"
    "content_get test_store (tdb_empty\<lparr>t_node := [(toy_hash ''hellos'', 1)],
      t_content := [(1, ''hello'')], t_peerhave := [''1'']\<rparr>) 1 = (1, ''hello'')"
    by (simp_all add: test_sql_def test_store_def)
  show ?thesis using e r five bad' q by simp
qed

text \<open>The same card in a request with push authorized: the reply, and nothing after the card is read.\<close>

lemma page_xfer_wrong_hash_reply:
  "reply_text (page_xfer test_env False
       (''push x '' @ toy_hash ''p'' @ ''\<newline>atom '' @ toy_hash ''hellos''
          @ '' 5 0 5\<newline>hello'')
       (globals_zero\<lparr>perm_Write := True\<rparr>)
       (tdb_empty\<lparr>t_config := [(''project-code'', toy_hash ''p'')]\<rparr>))
     = Some (''error '' @ at_text (''wrong hash on received atom: '' @ toy_hash ''hellos''
                @ ''wrong hash on received artifact: '' @ toy_hash ''hellos'') @ ''\<newline>''
             @ ''# timestamp 2024-01-01T00:00:00 errors 1\<newline>'')"
  by code_simp

subsection \<open>The login of anonymous and nobody\<close>

text \<open>
  Claim C2, as stated, fails. The handler tests the tail hash before it calls
  \<^verbatim>\<open>check_login\<close>, whatever the user: a login card of \<^verbatim>\<open>anonymous\<close> whose nonce is
  not the hash of the rest of the request is answered with \<^verbatim>\<open>login failed\<close>.
\<close>

theorem anonymous_login_tail_hash:
  "reply_text (page_xfer test_env False req_anon globals_zero tdb_empty)
     = Some (''error '' @ at_text ''login failed'' @ ''\<newline>''
             @ ''# timestamp 2024-01-01T00:00:00 errors 1\<newline>'')"
  by code_simp

text \<open>
  Claim C2, amended. For a login card whose decoded user is \<^verbatim>\<open>anonymous\<close> or
  \<^verbatim>\<open>nobody\<close>, \<^verbatim>\<open>check_login\<close> succeeds for every nonce and signature without
  reading the user table, and it grants nothing: the globals stay as they were before
  the card, with whatever the request holds by then. What every request holds from
  its start are the capabilities of anonymous and nobody, which \<^verbatim>\<open>page_xfer\<close> sets
  before it reads the first card; an earlier login card of the request may have
  added to them. With login checks enabled the card is accepted exactly when the tail
  hash passes; otherwise the handler replies \<^verbatim>\<open>login failed\<close> and leaves the loop.
  With login checks disabled, \<^verbatim>\<open>check_login\<close> is not called and the card, like every
  login card, sets the capabilities to read, write, private and admin.
\<close>

theorem anonymous_login_skips_signature:
  assumes "defossilize (lib E) (token (xfer s) 1) = ''anonymous''
         \<or> defossilize (lib E) (token (xfer s) 1) = ''nobody''"
  shows "check_login (lib E) (sql E) (ext E) (token (xfer s) 1) pNonce pSig (glob s) (dbase s)
           = Some (0, glob s)
     \<and> login_failed (lib E) (sql E) (ext E) (xfer s) (glob s) (dbase s)
           = Some (check_tail_hash (lib E) (token (xfer s) 2) (pIn (xfer s)), glob s)
     \<and> card_login E False s
           = (if check_tail_hash (lib E) (token (xfer s) 2) (pIn (xfer s))
              then Stop (reply_error (at_text ''login failed'') s) else Next s)
     \<and> card_login E True s
           = Next (s\<lparr>glob := (glob s)\<lparr>perm_Read := True, perm_Write := True,
                                         perm_Private := True, perm_Admin := True\<rparr>\<rparr>)
     \<and> (token (xfer s) 0 = ''login'' \<and> nToken (xfer s) = 4
          \<longrightarrow> page_xfer_card E dl s = card_login E dl s)
     \<and> glob (page_xfer_enter E cgiIn gl d)
           = login_check_credentials (ext E) d
               (login_set_anon_nobody_capabilities (ext E) d (gl\<lparr>zLogin := ''anonymous''\<rparr>))"
proof -
  have a: "check_login (lib E) (sql E) (ext E) (token (xfer s) 1) n g (glob s) (dbase s)
      = Some (0, glob s)" for n g
    using assms by (auto simp: check_login_def Let_def)
  have b: "login_failed (lib E) (sql E) (ext E) (xfer s) (glob s) (dbase s)
           = Some (check_tail_hash (lib E) (token (xfer s) 2) (pIn (xfer s)), glob s)"
    using a [of "token (xfer s) 2" "token (xfer s) 3"] by (simp add: login_failed_def del: One_nat_def)
  have c: "card_login E False s
           = (if check_tail_hash (lib E) (token (xfer s) 2) (pIn (xfer s))
              then Stop (reply_error (at_text ''login failed'') s) else Next s)"
    by (simp add: card_login_def b)
  have f: "card_login E True s
           = Next (s\<lparr>glob := (glob s)\<lparr>perm_Read := True, perm_Write := True,
                                         perm_Private := True, perm_Admin := True\<rparr>\<rparr>)"
    by (simp add: card_login_def)
  have e: "glob (page_xfer_enter E cgiIn gl d)
           = login_check_credentials (ext E) d
               (login_set_anon_nobody_capabilities (ext E) d (gl\<lparr>zLogin := ''anonymous''\<rparr>))"
    by (simp add: page_xfer_enter_def page_xfer_start_def Let_def)
  have g: "token (xfer s) 0 = ''login'' \<and> nToken (xfer s) = 4
          \<longrightarrow> page_xfer_card E dl s = card_login E dl s"
    by (simp add: page_xfer_card_def Let_def)
  from a b c e f g show ?thesis by blast
qed

theorem anonymous_login_skips_signature_witness:
  "defossilize (lib test_env) (token (xfer st_login_anon) 1) = ''anonymous''
   \<and> \<not> check_tail_hash (lib test_env) (token (xfer st_login_anon) 2) (pIn (xfer st_login_anon))
   \<and> check_login (lib test_env) (sql test_env) (ext test_env) (token (xfer st_login_anon) 1)
        ''n'' ''s'' (glob st_login_anon) (dbase st_login_anon) = Some (0, glob st_login_anon)
   \<and> card_login test_env False st_login_anon = Next st_login_anon
   \<and> token (xfer st_login_anon) 0 = ''login'' \<and> nToken (xfer st_login_anon) = 4
   \<and> page_xfer_card test_env False st_login_anon = Next st_login_anon
   \<and> glob st_login_anon = globals_zero\<lparr>perm_Read := True, perm_Clone := True,
                                         zLogin := ''anonymous''\<rparr>
   \<and> defossilize (lib test_env) (token (xfer st_login_anon_alice) 1) = ''anonymous''
   \<and> card_login test_env False st_login_anon_alice = Next st_login_anon_alice
   \<and> perm_Write (glob st_login_anon_alice) \<and> userUid (glob st_login_anon_alice) = 7"
proof -
  have a: "defossilize (lib test_env) (token (xfer st_login_anon) 1) = ''anonymous''"
    "defossilize (lib test_env) (token (xfer st_login_anon_alice) 1) = ''anonymous''"
    by code_simp+
  have b: "\<not> check_tail_hash (lib test_env) (token (xfer st_login_anon) 2)
      (pIn (xfer st_login_anon))"
    "\<not> check_tail_hash (lib test_env) (token (xfer st_login_anon_alice) 2)
      (pIn (xfer st_login_anon_alice))" by code_simp+
  have t: "token (xfer st_login_anon) 0 = ''login''" "nToken (xfer st_login_anon) = 4"
    by code_simp+
  have g: "glob st_login_anon = globals_zero\<lparr>perm_Read := True, perm_Clone := True,
                                         zLogin := ''anonymous''\<rparr>"
    "perm_Write (glob st_login_anon_alice)" "userUid (glob st_login_anon_alice) = 7"
    by code_simp+
  from anonymous_login_skips_signature [OF disjI1 [OF a(1)], of "''n''" "''s''" False]
    anonymous_login_skips_signature [OF disjI1 [OF a(2)], of "''n''" "''s''"] a b t g
  show ?thesis by simp
qed

subsection \<open>The reply after an error card\<close>





























subsection \<open>An atom card with a delta source\<close>

text \<open>
  Claim C4. The routine handles a delta source in its branches for four tokens
  (\<^verbatim>\<open>nToken==4\<close>), but its first test refuses every line that does not have five
  tokens: a card \<^verbatim>\<open>atom H DELTASRC SIZE\<close> is answered with \<^verbatim>\<open>malformed atom line\<close>,
  nothing is read from the input and the database is not touched. The theorem
  states what the code does; the claim asks for the card to be accepted.
\<close>

theorem accept_atom_needs_five_tokens:
  assumes "nToken x \<noteq> 5"
  shows "xfer_accept_atom_node L Q S cloneFlag isPriv gl x d
           = (x\<lparr>err := err x @ ''malformed atom line''\<rparr>, d)"
  using assms by (simp add: xfer_accept_atom_node_def Let_def)

theorem accept_atom_needs_five_tokens_witness:
  "nToken xfer_delta_card \<noteq> 5
   \<and> blob_is_hname test_lib (token xfer_delta_card 2)
   \<and> xfer_accept_atom_node test_lib test_sql test_store False False globals_zero
        xfer_delta_card tdb_empty
      = (xfer_delta_card\<lparr>err := ''malformed atom line''\<rparr>, tdb_empty)"
proof -
  have n: "nToken xfer_delta_card \<noteq> 5" by (simp add: xfer_delta_card_def xfer_zero_def)
  have h: "blob_is_hname test_lib (token xfer_delta_card 2)" by code_simp
  have e: "err xfer_delta_card = []" by (simp add: xfer_delta_card_def xfer_zero_def)
  from accept_atom_needs_five_tokens [OF n, of test_lib test_sql test_store False False
      globals_zero tdb_empty] n h e
  show ?thesis by simp
qed

subsection \<open>Back-pressure in send_node\<close>

text \<open>
  What \<^verbatim>\<open>send_node\<close> does when its statement on the peer-have table cannot be
  prepared: a private record without private sync is dealt with before the statement
  is reached, and for every other record the routine ends there.
\<close>

lemma send_node_query_fails:
  assumes "peerhave_has_rid Q d rid = None"
      and "\<not> (content_is_private S d rid \<and> syncPrivate x = 0)"
  shows "send_node L Q S X now rid pUuid nativeDelta x d = Inl Db_error"
  using assms by (auto simp: send_node_def Let_def)

text \<open>
  The branch of the deadline and the byte cap, where the statement on the peer-have
  table can be prepared and finds no row: a record that the other checks let through
  gets exactly the card \<^verbatim>\<open>have H\<close>, with the flag 1 when it is private.
\<close>

lemma send_node_cap_card:
  assumes "(maxTime x \<noteq> - 1 \<and> maxTime x \<le> now) \<or> mxSend x \<le> int (length (pOut x))"
      and "peerhave_has_rid Q d rid = Some False"
      and "\<not> (content_is_private S d rid \<and> syncPrivate x = 0)"
      and "blob_uuid Q d rid \<noteq> []"
      and "\<not> (int (length (blob_uuid Q d rid)) > HNAME_LEN_SHA1 L \<and> remoteVersion x < 20000)"
      and "pUuid = None \<or> pUuid = Some (blob_uuid Q d rid)"
      and "\<not> uuid_is_shunned S d (blob_uuid Q d rid)"
  shows "send_node L Q S X now rid pUuid nativeDelta x d
           = Inr (x\<lparr>pOut := pOut x @ ''have '' @ blob_uuid Q d rid
                          @ (if content_is_private S d rid then '' 1'' else []) @ ''\<newline>'',
                      nIGotSent := nIGotSent x + 1\<rparr>, d)"
  using assms by (auto simp: send_node_def Let_def)




subsection \<open>The resync cursor\<close>

lemma send_root_step_resync:
  "resync (fst (send_root_step r s)) = resync (fst s) \<or>
   (resync (fst s) \<noteq> 0 \<and> resync (fst (send_root_step r s)) = snd r - 1)"
  by (simp add: send_root_step_def Let_def)

lemma send_root_step_cnt: "snd (send_root_step r s) = snd s + 1"
  by (simp add: send_root_step_def Let_def)

lemma send_root_fold_cnt: "snd (fold send_root_step rows s) = snd s + int (length rows)"
  by (induction rows arbitrary: s) (simp_all add: send_root_step_cnt)

lemma send_root_fold_zero:
  "resync (fst s) = 0 \<Longrightarrow> resync (fst (fold send_root_step rows s)) = 0"
proof (induction rows arbitrary: s)
  case Nil
  then show ?case by simp
next
  case (Cons r rows)
  from send_root_step_resync [of r s] Cons.prems
  have "resync (fst (send_root_step r s)) = 0" by auto
  then show ?case using Cons.IH by simp
qed

lemma send_root_loop_take_Suc:
  "k < length rows \<Longrightarrow>
   send_root_loop (take (Suc k) rows) x = send_root_step (rows ! k) (send_root_loop (take k rows) x)"
  by (simp add: send_root_loop_def take_Suc_conv_app_nth)

text \<open>With a cursor, the rows come in descending order of id and none lies above the cursor.\<close>

lemma send_root_rows_sorted:
  assumes "resync x \<noteq> 0"
  shows "sorted_wrt (\<ge>) (map snd (send_root_rows Q d x))"
    and "list_all (\<lambda>r. snd r \<le> resync x) (send_root_rows Q d x)"
proof -
  let ?ys = "sort_key snd (filter (\<lambda>r. snd r \<le> resync x \<and>
       (if peerhave_exists Q d then \<not> peerhave_has_uuid Q d (fst r) else True)) (node_rows Q d))"
  have rows: "send_root_rows Q d x = rev ?ys"
    using assms by (simp add: send_root_rows_def)
  have "sorted (map snd ?ys)" by (rule sorted_sort_key)
  then have "sorted_wrt (\<lambda>a b. b \<le> a) (rev (map snd ?ys))"
    by (simp add: sorted_wrt_rev)
  then show "sorted_wrt (\<ge>) (map snd (send_root_rows Q d x))"
    unfolding rows by (simp add: rev_map)
  show "list_all (\<lambda>r. snd r \<le> resync x) (send_root_rows Q d x)"
    unfolding rows by (simp add: list_all_iff)
qed

text \<open>After any prefix of such a sweep, every id still to come is at most one above the cursor.\<close>

lemma sweep_inv:
  assumes srt: "sorted_wrt (\<ge>) (map snd rows)"
      and bnd: "list_all (\<lambda>r. snd r \<le> resync x) rows"
      and k: "k \<le> length rows"
  shows "\<forall>j. k \<le> j \<and> j < length rows \<longrightarrow>
              snd (rows ! j) - 1 \<le> resync (fst (send_root_loop (take k rows) x))"
  using k
proof (induction k)
  case 0
  show ?case using bnd
    by (auto simp: send_root_loop_def list_all_length)
next
  case (Suc k)
  then have kl: "k < length rows" and IH: "\<forall>j. k \<le> j \<and> j < length rows \<longrightarrow>
              snd (rows ! j) - 1 \<le> resync (fst (send_root_loop (take k rows) x))" by auto
  let ?s = "send_root_loop (take k rows) x"
  have eq: "send_root_loop (take (Suc k) rows) x = send_root_step (rows ! k) ?s"
    using kl by (rule send_root_loop_take_Suc)
  from send_root_step_resync [of "rows ! k" ?s]
  show ?case
  proof
    assume same: "resync (fst (send_root_step (rows ! k) ?s)) = resync (fst ?s)"
    show ?thesis using IH unfolding eq same by auto
  next
    assume upd: "resync (fst ?s) \<noteq> 0 \<and>
      resync (fst (send_root_step (rows ! k) ?s)) = snd (rows ! k) - 1"
    have "snd (rows ! j) \<le> snd (rows ! k)" if "Suc k \<le> j" "j < length rows" for j
      using srt that kl by (auto simp: sorted_wrt_iff_nth_less)
    then show ?thesis unfolding eq using upd by fastforce
  qed
qed

lemma sweep_step_le:
  assumes "resync x = 0 \<or>
    (sorted_wrt (\<ge>) (map snd rows) \<and> list_all (\<lambda>r. snd r \<le> resync x) rows)"
  shows "resync (fst (send_root_loop (take (Suc k) rows) x))
       \<le> resync (fst (send_root_loop (take k rows) x))"
proof (cases "k < length rows")
  case False
  then show ?thesis by simp
next
  case kl: True
  let ?s = "send_root_loop (take k rows) x"
  have eq: "send_root_loop (take (Suc k) rows) x = send_root_step (rows ! k) ?s"
    using kl by (rule send_root_loop_take_Suc)
  from assms show ?thesis
  proof
    assume "resync x = 0"
    then show ?thesis by (simp add: send_root_loop_def send_root_fold_zero)
  next
    assume a: "sorted_wrt (\<ge>) (map snd rows) \<and> list_all (\<lambda>r. snd r \<le> resync x) rows"
    from sweep_inv [of rows x k] a kl
    have "snd (rows ! k) - 1 \<le> resync (fst ?s)" by auto
    with send_root_step_resync [of "rows ! k" ?s] show ?thesis unfolding eq by auto
  qed
qed

lemma sweep_nonneg:
  assumes "0 \<le> resync (fst s)" and "list_all (\<lambda>r. 0 < snd r) rows"
  shows "0 \<le> resync (fst (fold send_root_step rows s))"
  using assms
proof (induction rows arbitrary: s)
  case Nil
  then show ?case by simp
next
  case (Cons r rows)
  from send_root_step_resync [of r s] Cons.prems
  have "0 \<le> resync (fst (send_root_step r s))" by auto
  then show ?case using Cons.IH Cons.prems by simp
qed

lemma send_root_rows_subset: "set (send_root_rows Q d x) \<subseteq> set (node_rows Q d)"
  by (auto simp: send_root_rows_def)

text \<open>
  Claim C6. In an execution of \<^verbatim>\<open>send_root\<close> that starts with a cursor that is not
  negative, over a node table whose ids are positive (0 is the file's "no such
  record"), the cursor never increases from one row to the next; a row either leaves
  it alone or sets it to the id just announced minus one; the final value lies
  between 0 and the starting value; and a sweep that announces nothing leaves it at 0.
\<close>

theorem send_root_resync_monotone:
  assumes nonneg: "0 \<le> resync x"
      and ids: "list_all (\<lambda>r. 0 < snd r) (node_rows Q d)"
  shows "sorted_wrt (\<ge>) (resync_trace (send_root_rows Q d x) x)
       \<and> (\<forall>k < length (send_root_rows Q d x).
            resync (fst (send_root_loop (take (Suc k) (send_root_rows Q d x)) x))
              = resync (fst (send_root_loop (take k (send_root_rows Q d x)) x))
          \<or> (resync (fst (send_root_loop (take (Suc k) (send_root_rows Q d x)) x))
              = snd (send_root_rows Q d x ! k) - 1
             \<and> resync (fst (send_root_loop (take (Suc k) (send_root_rows Q d x)) x))
              < snd (send_root_rows Q d x ! k)))
       \<and> 0 \<le> resync (fst (send_root Q d x))
       \<and> resync (fst (send_root Q d x)) \<le> resync (fst (send_root_loop (send_root_rows Q d x) x))
       \<and> resync (fst (send_root Q d x)) \<le> resync x
       \<and> (snd (send_root Q d x) = 0 \<longrightarrow> resync (fst (send_root Q d x)) = 0)"
proof -
  let ?rows = "send_root_rows Q d x"
  let ?R = "\<lambda>k. resync (fst (send_root_loop (take k ?rows) x))"
  have ok: "resync x = 0 \<or>
      (sorted_wrt (\<ge>) (map snd ?rows) \<and> list_all (\<lambda>r. snd r \<le> resync x) ?rows)"
    using send_root_rows_sorted [of x Q d] by blast
  have step: "?R (Suc k) \<le> ?R k" for k using ok by (rule sweep_step_le)
  have anti: "?R j \<le> ?R i" if "i \<le> j" for i j
    using step that by (rule lift_Suc_antimono_le)
  have mono: "sorted_wrt (\<ge>) (resync_trace ?rows x)"
    unfolding resync_trace_def sorted_wrt_map
    by (rule sorted_wrt_mono_rel [of _ "(<)"])
       (auto intro: anti simp: sorted_wrt_upt simp del: upt_Suc)
  have upd: "?R (Suc k) = ?R k \<or>
      (?R (Suc k) = snd (?rows ! k) - 1 \<and> ?R (Suc k) < snd (?rows ! k))"
    if "k < length ?rows" for k
    using send_root_step_resync [of "?rows ! k" "send_root_loop (take k ?rows) x"]
      send_root_loop_take_Suc [OF that, of x] by auto
  have pos: "list_all (\<lambda>r. 0 < snd r) ?rows"
    using ids send_root_rows_subset [of Q d x] by (auto simp: list_all_iff)
  have nn: "0 \<le> ?R (length ?rows)"
    using sweep_nonneg [of "(x, 0)" ?rows] nonneg pos by (simp add: send_root_loop_def)
  have le0: "?R (length ?rows) \<le> ?R 0" by (rule anti) simp
  have fin: "resync (fst (send_root Q d x)) = (if ?rows = [] then 0 else ?R (length ?rows))"
    by (simp add: send_root_def Let_def send_root_loop_def send_root_fold_cnt)
  have cnt: "snd (send_root Q d x) = int (length ?rows)"
    by (simp add: send_root_def Let_def send_root_loop_def send_root_fold_cnt)
  show ?thesis
    using mono upd nn le0 nonneg unfolding fin cnt
    by (auto simp: send_root_loop_def)
qed

theorem send_root_resync_monotone_witness:
  "0 \<le> resync xfer_sweep
   \<and> list_all (\<lambda>r. 0 < snd r) (node_rows test_sql db_three)
   \<and> resync_trace (send_root_rows test_sql db_three xfer_sweep) xfer_sweep = [5, 2, 0]
   \<and> sorted_wrt (\<ge>) (resync_trace (send_root_rows test_sql db_three xfer_sweep) xfer_sweep)
   \<and> resync (fst (send_root test_sql db_three xfer_sweep)) = 0
   \<and> resync (fst (send_root test_sql db_three xfer_sweep)) \<le> resync xfer_sweep
   \<and> list_all (\<lambda>r. 0 < snd r) (node_rows test_sql tdb_empty)
   \<and> snd (send_root test_sql tdb_empty xfer_sweep) = 0
   \<and> resync (fst (send_root test_sql tdb_empty xfer_sweep)) = 0"
proof -
  have h1: "0 \<le> resync xfer_sweep" by (simp add: xfer_sweep_def xfer_zero_def)
  have h2: "list_all (\<lambda>r. 0 < snd r) (node_rows test_sql db_three)"
    by (simp add: test_sql_def db_three_def tdb_empty_def)
  have h3: "list_all (\<lambda>r. 0 < snd r) (node_rows test_sql tdb_empty)"
    by (simp add: test_sql_def tdb_empty_def)
  have rows: "send_root_rows test_sql db_three xfer_sweep = [(''b'', 3), (''a'', 1)]"
    by (simp add: send_root_rows_def test_sql_def db_three_def xfer_sweep_def xfer_zero_def
        tdb_empty_def t_nid_def)
  have tr: "resync_trace (send_root_rows test_sql db_three xfer_sweep) xfer_sweep = [5, 2, 0]"
    unfolding rows
    by (simp add: resync_trace_def send_root_loop_def send_root_step_def xfer_sweep_def
        xfer_zero_def Let_def upt_rec)
  have fin: "resync (fst (send_root test_sql db_three xfer_sweep)) = 0"
    unfolding send_root_def rows
    by (simp add: send_root_loop_def send_root_step_def xfer_sweep_def xfer_zero_def Let_def)
  have none: "snd (send_root test_sql tdb_empty xfer_sweep) = 0"
    by (simp add: send_root_def send_root_loop_def send_root_rows_def test_sql_def tdb_empty_def
        xfer_sweep_def xfer_zero_def Let_def)
  from send_root_resync_monotone [OF h1 h2] send_root_resync_monotone [OF h1 h3]
    h1 h2 h3 tr fin none
  show ?thesis by simp
qed

subsection \<open>Cards that write before push is authorized\<close>

text \<open>
  Claim C7, as stated, fails for the \<^verbatim>\<open>have\<close> card: without push authorization the
  handler passes over a card \<^verbatim>\<open>have HASH\<close>. A request that is such a card alone is
  answered with the closing comment alone, with no error.
\<close>

theorem have_before_push_ignored:
  "reply_text (page_xfer test_env False req_have globals_zero tdb_empty)
     = Some ''# timestamp 2024-01-01T00:00:00 errors 0\<newline>''"
  by code_simp

text \<open>
  A line that starts with \<^verbatim>\<open>have\<close> and is not of two tokens with a well-formed hash
  name is no \<^verbatim>\<open>have\<close> card for the handler, with or without push authorization: it
  falls through to the last branch of the chain.
\<close>

lemma have_line_other_shape:
  assumes "token (xfer s) 0 = ''have''"
      and "\<not> (nToken (xfer s) = 2 \<and> blob_is_hname (lib E) (token (xfer s) 1))"
  shows "page_xfer_card E dl s = card_unknown E s"
  using assms by (auto simp: page_xfer_card_def Let_def)

text \<open>
  Claim C7, amended. While push is not authorized, an \<^verbatim>\<open>atom\<close> card (and a
  \<^verbatim>\<open>list\<close> card) makes the handler clear the reply, write
  \<^verbatim>\<open>error not authorized to write\<close>, count the error and leave the loop, so that the
  rest of the request is not read; the database is as before. A card \<^verbatim>\<open>have HASH\<close>,
  of exactly two tokens with a well-formed hash name, is passed over: the state is
  unchanged, nothing is written, and the loop goes on.
\<close>

theorem write_cards_before_push:
  assumes "\<not> isPush s"
  shows "(token (xfer s) 0 = ''atom'' \<or> token (xfer s) 0 = ''list''
            \<longrightarrow> page_xfer_card E dl s = Stop (reply_error (at_text ''not authorized to write'') s))
     \<and> (nToken (xfer s) = 2 \<and> token (xfer s) 0 = ''have'' \<and> blob_is_hname (lib E) (token (xfer s) 1)
            \<longrightarrow> page_xfer_card E dl s = Next s)
     \<and> pOut (xfer (reply_error m s)) = ''error '' @ m @ ''\<newline>''
     \<and> nErr (reply_error m s) = nErr s + 1
     \<and> dbase (reply_error m s) = dbase s
     \<and> (blob_line (pIn (xfer s0)) = Some lr \<and> page_xfer_line E dl s0 lr = Stop s'
            \<longrightarrow> page_xfer_loop E dl s0 = Stop s')"
proof (intro conjI impI)
  assume "token (xfer s) 0 = ''atom'' \<or> token (xfer s) 0 = ''list''"
  then show "page_xfer_card E dl s = Stop (reply_error (at_text ''not authorized to write'') s)"
    using assms by (auto simp: page_xfer_card_def card_atom_def card_list_def)
next
  assume "nToken (xfer s) = 2 \<and> token (xfer s) 0 = ''have'' \<and> blob_is_hname (lib E) (token (xfer s) 1)"
  then show "page_xfer_card E dl s = Next s"
    using assms by (simp add: page_xfer_card_def card_have_def)
next
  show "pOut (xfer (reply_error m s)) = ''error '' @ m @ ''\<newline>''" by (rule reply_error_pOut)
  show "nErr (reply_error m s) = nErr s + 1" by (rule reply_error_nErr)
  show "dbase (reply_error m s) = dbase s" by (rule reply_error_dbase)
next
  assume a: "blob_line (pIn (xfer s0)) = Some lr \<and> page_xfer_line E dl s0 lr = Stop s'"
  show "page_xfer_loop E dl s0 = Stop s'"
    by (simp add: page_xfer_loop_step [OF conjunct1 [OF a]] conjunct2 [OF a])
qed

theorem write_cards_before_push_witness:
  "\<not> isPush st_atom \<and> token (xfer st_atom) 0 = ''atom''
   \<and> page_xfer_card test_env False st_atom
        = Stop (reply_error (at_text ''not authorized to write'') st_atom)
   \<and> \<not> isPush st_have \<and> nToken (xfer st_have) = 2 \<and> token (xfer st_have) 0 = ''have''
   \<and> blob_is_hname (lib test_env) (token (xfer st_have) 1)
   \<and> page_xfer_card test_env False st_have = Next st_have
   \<and> blob_line (pIn (xfer st_atom_line)) = Some (''atom'', [])
   \<and> page_xfer_line test_env False st_atom_line (''atom'', []) = Stop st_atom_left
   \<and> page_xfer_loop test_env False st_atom_line = Stop st_atom_left"
proof -
  have a: "\<not> isPush st_atom" "token (xfer st_atom) 0 = ''atom''" by code_simp+
  have h: "\<not> isPush st_have" "nToken (xfer st_have) = 2" "token (xfer st_have) 0 = ''have''"
    "blob_is_hname (lib test_env) (token (xfer st_have) 1)" by code_simp+
  have l: "blob_line (pIn (xfer st_atom_line)) = Some (''atom'', [])"
    "page_xfer_line test_env False st_atom_line (''atom'', []) = Stop st_atom_left"
    by code_simp+
  from write_cards_before_push [OF a(1), of test_env False _ st_atom_line "(''atom'', [])"
      st_atom_left]
    write_cards_before_push [OF h(1), of test_env False] a h l
  show ?thesis by simp
qed

subsection \<open>The limit on requests in a client cycle\<close>

lemma request_partials_loop_count:
  "nINeedSent (request_partials_loop rows m x) = nINeedSent x + int (min (length rows) (nat m))"
  by (induction rows m x rule: request_partials_loop.induct) auto

lemma request_partials_count_le:
  "nINeedSent (request_partials Q d m x) - nINeedSent x \<le> max 0 m"
  "0 \<le> nINeedSent (request_partials Q d m x) - nINeedSent x"
  by (simp_all add: request_partials_def request_partials_loop_count)

lemma cycle_end_limit:
  "mxPhantomReq (cycle_end cl i c) =
     (if (nFileRecv i > 0 \<or> o_newPhantom i) \<and> o_phantom_exists i
      then max 200 (2 * nFileRecv i) else mxPhantomReq c)"
  by (simp add: cycle_end_def Let_def)

lemma client_cycles_bounded:
  "200 \<le> mxPhantomReq c \<Longrightarrow>
   list_all (\<lambda>p. 0 \<le> snd p \<and> snd p \<le> fst p \<and> 200 \<le> fst p) (client_cycles Q pl cl ins c x)"
proof (induction ins arbitrary: c x)
  case Nil
  then show ?case by simp
next
  case (Cons i ins)
  have "200 \<le> mxPhantomReq (cycle_end cl i c)"
    using Cons.prems by (simp add: cycle_end_limit)
  from Cons.IH [OF this] Cons.prems request_partials_count_le [of Q "c_db i" "mxPhantomReq c" x]
  show ?case by (simp add: Let_def cycle_requests_def)
qed

text \<open>
  Claim C8, as stated, fails. The limit is recomputed only at the end of a cycle that
  received a file or found a phantom while phantoms remain. In the three cycles below
  the second receives nothing and keeps the limit 202 of the first, so the third
  issues 201 cards, more than \<open>max 200 (2 * 0)\<close>.
\<close>

theorem client_cycles_stale_limit:
  "client_cycles test_sql True False stale_cycles client_init xfer_zero
     = [(200, 0), (202, 0), (202, 201)]
   \<and> nFileRecv (stale_cycles ! 1) = 0
   \<and> \<not> snd (client_cycles test_sql True False stale_cycles client_init xfer_zero ! 2)
        \<le> max 200 (2 * nFileRecv (stale_cycles ! 1))"
  by (simp add: stale_cycles_def cycle_quiet_def client_init_def cycle_requests_def
      request_partials_def request_partials_loop_count cycle_end_def nFileRecv_def Let_def
      test_sql_def tdb_empty_def)

text \<open>
  Claim C8, amended. In every cycle of the client the number of \<^verbatim>\<open>ineed\<close> cards
  issued is at most the limit \<^verbatim>\<open>mxPhantomReq\<close> in force, which is never below 200.
  The limit starts at 200; the end of a cycle sets it to the larger of 200 and twice
  the files received in that cycle when a file was received or a phantom found and
  phantoms remain, and leaves it as it is otherwise.
\<close>

theorem client_cycle_request_limit:
  "list_all (\<lambda>p. 0 \<le> snd p \<and> snd p \<le> fst p \<and> 200 \<le> fst p)
     (client_cycles Q sync_pull sync_clone ins client_init x)
   \<and> mxPhantomReq (cycle_end sync_clone i c) =
       (if (nFileRecv i > 0 \<or> o_newPhantom i) \<and> o_phantom_exists i
        then max 200 (2 * nFileRecv i) else mxPhantomReq c)"
  using client_cycles_bounded [of client_init Q sync_pull sync_clone ins x]
  by (simp add: cycle_end_limit client_init_def)

theorem client_cycle_request_limit_witness:
  "list_all (\<lambda>p. 0 \<le> snd p \<and> snd p \<le> fst p \<and> 200 \<le> fst p)
     (client_cycles test_sql True False stale_cycles client_init xfer_zero)
   \<and> mxPhantomReq (cycle_end False (stale_cycles ! 0) client_init) = 202
   \<and> mxPhantomReq (cycle_end False (stale_cycles ! 1)
        (cycle_end False (stale_cycles ! 0) client_init)) = 202"
  using client_cycle_request_limit [of test_sql True False stale_cycles xfer_zero "stale_cycles ! 0" client_init]
    client_cycle_request_limit [of test_sql True False stale_cycles xfer_zero "stale_cycles ! 1"
       "cycle_end False (stale_cycles ! 0) client_init"]
  by (simp add: stale_cycles_def cycle_quiet_def nFileRecv_def)

subsection \<open>A failed login\<close>

lemma check_login_failure:
  "check_login L Q X pLogin pNonce pSig gl d = Some (rc, gl') \<Longrightarrow> rc \<noteq> 0 \<Longrightarrow> gl' = gl"
  by (auto simp: check_login_def Let_def split: if_splits list.splits)

lemma login_failed_keeps:
  "login_failed L Q X x gl d = Some (True, gl') \<Longrightarrow> gl' = gl"
  by (auto simp: login_failed_def split: if_splits option.splits dest: check_login_failure)

lemma card_login_stop_glob:
  assumes st: "card_login E False s = Stop s'"
  shows "glob s' = glob s"
proof (cases "login_failed (lib E) (sql E) (ext E) (xfer s) (glob s) (dbase s)")
  case None
  with st show ?thesis by (simp add: card_login_def)
next
  case (Some r)
  show ?thesis
  proof (cases "fst r")
    case True
    with Some have "login_failed (lib E) (sql E) (ext E) (xfer s) (glob s) (dbase s)
        = Some (True, snd r)"
      by (cases r) simp
    then have k: "snd r = glob s" by (rule login_failed_keeps)
    from st Some True have "s' = reply_error (at_text ''login failed'') (s\<lparr>glob := snd r\<rparr>)"
      by (simp add: card_login_def)
    then show ?thesis by (simp add: reply_error_glob k)
  next
    case False
    with st Some show ?thesis by (simp add: card_login_def)
  qed
qed

text \<open>
  Claim C9. When \<^verbatim>\<open>check_login\<close> returns a code other than 0 (no such user, or the
  signature matches neither the stored password nor its SHA1 form), the globals are
  as before: capabilities, user id and login name are assigned only under
  \<^verbatim>\<open>rc==0\<close>. When the tail hash fails, \<^verbatim>\<open>check_login\<close> is not called and the
  globals are as before; and a login card that makes the handler leave the loop
  leaves the globals as they were.
\<close>

theorem login_failure_keeps_privileges:
  "(check_login L Q X pLogin pNonce pSig gl d = Some (rc, gl') \<and> rc \<noteq> 0 \<longrightarrow> gl' = gl)
   \<and> (check_tail_hash L (token x 2) (pIn x) \<longrightarrow> login_failed L Q X x gl d = Some (True, gl))
   \<and> (login_failed L Q X x gl d = Some (True, gl') \<longrightarrow> gl' = gl)
   \<and> (card_login E False s = Stop s' \<longrightarrow> glob s' = glob s)"
proof (intro conjI impI)
  assume a: "check_login L Q X pLogin pNonce pSig gl d = Some (rc, gl') \<and> rc \<noteq> 0"
  show "gl' = gl" by (rule check_login_failure [OF conjunct1 [OF a] conjunct2 [OF a]])
next
  assume "check_tail_hash L (token x 2) (pIn x)"
  then show "login_failed L Q X x gl d = Some (True, gl)" unfolding login_failed_def by simp
next
  assume "login_failed L Q X x gl d = Some (True, gl')"
  then show "gl' = gl" by (rule login_failed_keeps)
next
  assume "card_login E False s = Stop s'"
  then show "glob s' = glob s" by (rule card_login_stop_glob)
qed

theorem login_failure_keeps_privileges_witness:
  "check_login test_lib test_sql test_ext ''alice'' (toy_hash []) ''bad'' globals_zero db_users
     = Some (1, globals_zero)
   \<and> check_login test_lib test_sql test_ext ''alice'' (toy_hash [])
       (toy_hash (toy_hash [] @ ''secret'')) globals_zero db_users
     = Some (0, globals_zero\<lparr>perm_Write := True, userUid := 7, zLogin := ''alice'',
                            zNonce := toy_hash []\<rparr>)
   \<and> check_tail_hash test_lib (token xfer_login_alice 2) (pIn xfer_login_alice)
   \<and> login_failed test_lib test_sql test_ext xfer_login_alice globals_zero db_users
     = Some (True, globals_zero)
   \<and> card_login test_env False st_login_alice
     = Stop (reply_error (at_text ''login failed'') st_login_alice)
   \<and> glob (reply_error (at_text ''login failed'') st_login_alice) = glob st_login_alice"
proof -
  have a: "check_login test_lib test_sql test_ext ''alice'' (toy_hash []) ''bad'' globals_zero
      db_users = Some (1, globals_zero)" by code_simp
  have b: "check_login test_lib test_sql test_ext ''alice'' (toy_hash [])
       (toy_hash (toy_hash [] @ ''secret'')) globals_zero db_users
     = Some (0, globals_zero\<lparr>perm_Write := True, userUid := 7, zLogin := ''alice'',
                            zNonce := toy_hash []\<rparr>)" by code_simp
  have c: "check_tail_hash test_lib (token xfer_login_alice 2) (pIn xfer_login_alice)"
    by code_simp
  have e: "card_login test_env False st_login_alice
     = Stop (reply_error (at_text ''login failed'') st_login_alice)" by code_simp
  from login_failure_keeps_privileges [where L = test_lib and Q = test_sql and X = test_ext
      and x = xfer_login_alice and gl = globals_zero and d = db_users and pLogin = "''alice''"
      and pNonce = "toy_hash []" and pSig = "''bad''" and rc = 1 and gl' = globals_zero
      and E = test_env and s = st_login_alice
      and s' = "reply_error (at_text ''login failed'') st_login_alice"] a b c e
  show ?thesis by simp
qed

subsection \<open>The expected name in send_node\<close>




end
